theory Spec2Isabelle
  imports Main "HOL-Library.Sublist" "HOL-Library.AList"
begin

section \<open>JavaScript strings\<close>

text \<open>
  A JavaScript string is modelled as a \<^typ>\<open>string\<close>, one \<^typ>\<open>char\<close> per UTF-16 code
  unit, for code units in the range U+0000 to U+00FF. The functions below are the
  methods of \<^verbatim>\<open>String.prototype\<close> that the server calls, with their ECMAScript
  meaning on that range.
\<close>

text \<open>\<^verbatim>\<open>s.includes(sub)\<close>: \<open>sub\<close> occurs in \<open>s\<close> as a contiguous substring.\<close>

fun str_includes :: "string \<Rightarrow> string \<Rightarrow> bool" where
  "str_includes [] sub = (sub = [])"
| "str_includes (c # cs) sub = (prefix sub (c # cs) \<or> str_includes cs sub)"

text \<open>\<^verbatim>\<open>s.indexOf(c)\<close> for a one-character pattern: the first position, or -1.\<close>

definition indexOf :: "string \<Rightarrow> char \<Rightarrow> int" where
  "indexOf s c = (if c \<in> set s then int (length (takeWhile (\<lambda>x. x \<noteq> c) s)) else - 1)"

text \<open>\<^verbatim>\<open>s.substring(0, e)\<close> for \<open>e \<ge> 0\<close>; an end beyond the length is clamped.\<close>

definition substring0 :: "string \<Rightarrow> int \<Rightarrow> string" where
  "substring0 s e = take (nat e) s"

text \<open>
  White space and line terminators of ECMAScript below U+0100: TAB, LF, VT, FF, CR,
  SPACE and NO-BREAK SPACE.
\<close>

definition is_ws :: "char \<Rightarrow> bool" where
  "is_ws c = (c \<in> set [CHR 0x09, CHR 0x0A, CHR 0x0B, CHR 0x0C, CHR 0x0D, CHR 0x20, CHR 0xA0])"

definition trim :: "string \<Rightarrow> string" where
  "trim s = rev (dropWhile is_ws (rev (dropWhile is_ws s)))"

text \<open>
  \<^verbatim>\<open>s.split(c)\<close> for a one-character separator: the pieces between the separators,
  \<open>n + 1\<close> pieces for \<open>n\<close> separators. The last case of the inner \<open>case\<close> is never
  taken, since the result is never empty.
\<close>

fun split :: "char \<Rightarrow> string \<Rightarrow> string list" where
  "split c [] = [[]]"
| "split c (x # xs) =
     (if x = c then [] # split c xs
      else (case split c xs of
              y # ys \<Rightarrow> (x # y) # ys
            | [] \<Rightarrow> [[x]]))"

text \<open>\<^verbatim>\<open>s.split(c, n)\<close>: at most the first \<open>n\<close> pieces; the rest is dropped.\<close>

definition split_limit :: "char \<Rightarrow> nat \<Rightarrow> string \<Rightarrow> string list" where
  "split_limit c n s = take n (split c s)"

text \<open>
  \<^verbatim>\<open>s.replace(pat, rep)\<close> with a string pattern: the first occurrence only. The
  replacements used by the server contain no \<^verbatim>\<open>$\<close>, so no substitution pattern
  applies.
\<close>

fun replace :: "string \<Rightarrow> string \<Rightarrow> string \<Rightarrow> string" where
  "replace pat rep [] = (if pat = [] then rep else [])"
| "replace pat rep (c # cs) =
     (if prefix pat (c # cs) then rep @ drop (length pat) (c # cs)
      else c # replace pat rep cs)"

text \<open>\<^verbatim>\<open>xs.join(sep)\<close>.\<close>

fun join :: "string \<Rightarrow> string list \<Rightarrow> string" where
  "join sep [] = []"
| "join sep [x] = x"
| "join sep (x # y # ys) = x @ sep @ join sep (y # ys)"

text \<open>Truthiness of a string: the empty string is falsy.\<close>

definition truthy :: "string \<Rightarrow> bool" where
  "truthy s = (s \<noteq> [])"

text \<open>Truthiness of \<^verbatim>\<open>string | undefined\<close>.\<close>

definition truthy_opt :: "string option \<Rightarrow> bool" where
  "truthy_opt s = (case s of None \<Rightarrow> False | Some x \<Rightarrow> truthy x)"

section \<open>Errors\<close>

text \<open>
  A thrown \<^verbatim>\<open>Error\<close> carries its message; \<open>TypeError\<close> is the error of reading a
  property of \<^verbatim>\<open>undefined\<close>, \<open>ZodError\<close> the error of a failed schema validation.
\<close>

datatype error = Error string | TypeError string | ZodError

section \<open>Credential parser\<close>

record AccountConfig =
  name :: string
  bearerToken :: string
  accountId :: "string option"

text \<open>The body of the \<^verbatim>\<open>tokens.map\<close> callback of \<^verbatim>\<open>parseAccounts\<close>.\<close>

definition parseToken :: "string \<Rightarrow> error + AccountConfig" where
  \<open>parseToken token =
     (let colonIndex = indexOf token (CHR '':'') in
      if colonIndex = - 1 then
        Inl (Error (''invalid token format, expected "username:password", got: ''
                    @ substring0 token 20))
      else
        let name = substring0 token colonIndex in
        if \<not> truthy name then Inl (Error ''account name cannot be empty'')
        else Inr \<lparr>name = name, bearerToken = token, accountId = None\<rparr>)\<close>

text \<open>
  \<^verbatim>\<open>tokens.map(f)\<close> where \<open>f\<close> may throw: the elements are visited in order and the
  first throw ends the call.
\<close>

fun mapE :: "('a \<Rightarrow> error + 'b) \<Rightarrow> 'a list \<Rightarrow> error + 'b list" where
  "mapE f [] = Inr []"
| "mapE f (x # xs) =
     (case f x of
        Inl e \<Rightarrow> Inl e
      | Inr y \<Rightarrow> (case mapE f xs of Inl e \<Rightarrow> Inl e | Inr ys \<Rightarrow> Inr (y # ys)))"

text \<open>
  \<^verbatim>\<open>parseAccounts\<close>. Its two arguments are the values of the environment variables
  \<^verbatim>\<open>JMAP_BEARER_TOKENS\<close> and \<^verbatim>\<open>JMAP_BEARER_TOKEN\<close>, \<open>None\<close> when unset. Each
  \<open>the\<close> is applied to a value that the test before it has found truthy.
\<close>

definition parseAccounts :: "string option \<Rightarrow> string option \<Rightarrow> error + AccountConfig list" where
  "parseAccounts envTokens envToken =
     (if truthy_opt envTokens then
        let tokens = filter truthy (map trim (split (CHR 0x0A) (the envTokens)))
        in mapE parseToken tokens
      else if \<not> truthy_opt envToken then
        Inl (Error ''missing required environment variables: JMAP_BEARER_TOKEN or JMAP_BEARER_TOKENS'')
      else
        let token = the envToken;
            colonIndex = indexOf token (CHR '':'');
            name = (if colonIndex \<noteq> - 1 then substring0 token colonIndex else ''default'')
        in Inr [\<lparr>name = name, bearerToken = token, accountId = None\<rparr>])"

section \<open>Transport auth adapter\<close>

subsection \<open>Platform functions: base64 and the \<^verbatim>\<open>Headers\<close> class\<close>

text \<open>
  \<^verbatim>\<open>btoa\<close>: base64 (RFC 4648) of a string of code units below U+0100, three bytes to
  four characters, padded with \<^verbatim>\<open>=\<close>.
\<close>

definition b64chars :: string where
  "b64chars = ''ABCDEFGHIJKLMNOPQRSTUVWXYZabcdefghijklmnopqrstuvwxyz0123456789+/''"

definition b64 :: "nat \<Rightarrow> char" where
  "b64 n = b64chars ! n"

fun btoa_bytes :: "nat list \<Rightarrow> string" where
  "btoa_bytes [] = []"
| "btoa_bytes [a] = [b64 (a div 4), b64 ((a mod 4) * 16), CHR ''='', CHR ''='']"
| "btoa_bytes [a, b] =
     [b64 (a div 4), b64 ((a mod 4) * 16 + b div 16), b64 ((b mod 16) * 4), CHR ''='']"
| "btoa_bytes (a # b # c # rest) =
     [b64 (a div 4), b64 ((a mod 4) * 16 + b div 16), b64 ((b mod 16) * 4 + c div 64),
      b64 (c mod 64)] @ btoa_bytes rest"

definition btoa :: "string \<Rightarrow> string" where
  "btoa s = btoa_bytes (map of_char s)"

text \<open>
  A \<^verbatim>\<open>Headers\<close> object is its header list: pairs of a lower-cased name and a value, in
  the order of insertion. \<^verbatim>\<open>new Headers(init)\<close> appends every pair of \<open>init\<close>
  (an absent \<open>init\<close> is the empty list); \<^verbatim>\<open>has\<close> compares names without case;
  \<^verbatim>\<open>set\<close> overwrites the first header of that name and removes the others, or appends.
\<close>

definition lower :: "char \<Rightarrow> char" where
  "lower c = (case map_of (zip ''ABCDEFGHIJKLMNOPQRSTUVWXYZ'' ''abcdefghijklmnopqrstuvwxyz'') c of
                Some l \<Rightarrow> l
              | None \<Rightarrow> c)"

type_synonym Headers = "(string \<times> string) list"

definition Headers_new :: "(string \<times> string) list \<Rightarrow> Headers" where
  "Headers_new init = map (\<lambda>(n, v). (map lower n, v)) init"

definition Headers_has :: "Headers \<Rightarrow> string \<Rightarrow> bool" where
  "Headers_has hs n = (map lower n \<in> set (map fst hs))"

fun set_header :: "Headers \<Rightarrow> string \<Rightarrow> string \<Rightarrow> Headers" where
  "set_header [] n v = [(n, v)]"
| "set_header ((k, w) # hs) n v =
     (if k = n then (n, v) # filter (\<lambda>(k', w'). k' \<noteq> n) hs
      else (k, w) # set_header hs n v)"

definition Headers_set :: "Headers \<Rightarrow> string \<Rightarrow> string \<Rightarrow> Headers" where
  "Headers_set hs n v = set_header hs (map lower n) v"

subsection \<open>Requests, responses and the patched \<^verbatim>\<open>fetch\<close>\<close>

text \<open>
  A call \<^verbatim>\<open>fetch(input, init)\<close> is the URL of \<open>input\<close> and the headers of \<open>init\<close>; the
  other members of \<open>init\<close> are passed on as they are by both branches of the patch and are
  kept in \<open>init_rest\<close>. The body of a response is what \<^verbatim>\<open>response.json()\<close> makes of it:
  not JSON (or not an object), or an object with its \<^verbatim>\<open>apiUrl\<close> member when that is a
  string, and its other members.
\<close>

record Request =
  url :: string
  headers :: "(string \<times> string) list"
  init_rest :: string

datatype Body = NotJson string | Json "string option" string

record Response =
  status :: nat
  statusText :: string
  responseHeaders :: "(string \<times> string) list"
  body :: Body

type_synonym Fetch = "Request \<Rightarrow> Response"

text \<open>The template literal \<^verbatim>\<open>`${x}`\<close> of a value that may be \<^verbatim>\<open>undefined\<close>.\<close>

definition tmpl :: "string option \<Rightarrow> string" where
  "tmpl x = (case x of None \<Rightarrow> ''undefined'' | Some s \<Rightarrow> s)"

text \<open>Array destructuring \<^verbatim>\<open>[a, b] = xs\<close>: a missing element is \<^verbatim>\<open>undefined\<close>.\<close>

definition element :: "'a list \<Rightarrow> nat \<Rightarrow> 'a option" where
  "element xs i = (if i < length xs then Some (xs ! i) else None)"

text \<open>
  The test and the rewrite of \<^verbatim>\<open>json.apiUrl\<close> in the patched \<^verbatim>\<open>fetch\<close>, and the
  endpoint repair they make together: the rewritten URL when the test holds, the URL as
  it is otherwise.
\<close>

definition needsRepair :: "string \<Rightarrow> bool" where
  "needsRepair apiUrl =
     (truthy apiUrl \<and> str_includes apiUrl ''http://'' \<and> str_includes apiUrl '':8080'')"

definition rewriteApiUrl :: "string \<Rightarrow> string" where
  "rewriteApiUrl apiUrl = replace '':8080'' [] (replace ''http://'' ''https://'' apiUrl)"

definition fixApiUrl :: "string \<Rightarrow> string" where
  "fixApiUrl apiUrl = (if needsRepair apiUrl then rewriteApiUrl apiUrl else apiUrl)"

text \<open>
  The function that \<^verbatim>\<open>createJAMClient\<close> installs as \<^verbatim>\<open>globalThis.fetch\<close>. \<open>hostname\<close> is
  \<^verbatim>\<open>new URL(config.sessionUrl).hostname\<close>, \<open>originalFetch\<close> the \<^verbatim>\<open>fetch\<close> that was
  installed before.
\<close>

definition patchedFetch ::
  "string \<Rightarrow> string option \<Rightarrow> string option \<Rightarrow> Fetch \<Rightarrow> Fetch" where
  "patchedFetch hostname username password originalFetch req =
     (if str_includes (url req) ''jmap'' \<or> str_includes (url req) hostname then
        let hs = Headers_new (headers req);
            hs' = (if Headers_has hs ''Authorization'' then
                     let basicAuth = btoa (tmpl username @ '':'' @ tmpl password)
                     in Headers_set hs ''Authorization'' (''Basic '' @ basicAuth)
                   else hs);
            response = originalFetch (req\<lparr>headers := hs'\<rparr>)
        in if str_includes (url req) ''session'' \<or> str_includes (url req) ''.well-known/jmap'' then
             (case body response of
                Json (Some apiUrl) members \<Rightarrow>
                  if needsRepair apiUrl then
                    \<lparr>status = status response, statusText = statusText response,
                     responseHeaders = responseHeaders response,
                     body = Json (Some (rewriteApiUrl apiUrl)) members\<rparr>
                  else response
              | _ \<Rightarrow> response)
           else response
      else originalFetch req)"

section \<open>The protocol client\<close>

text \<open>
  The client of the \<^verbatim>\<open>jmap-jam\<close> library is not part of this program. It is a record of
  what the program reads from it: the result of \<^verbatim>\<open>getPrimaryAccount()\<close>, the result of
  awaiting \<^verbatim>\<open>session\<close>, and the methods of \<^verbatim>\<open>api\<close>. A method takes the state \<open>'st\<close> of
  the mail server, and returns its result, or the error it rejects with, and the new
  state. Results are the members that the program reads, with the types that the library
  declares for them.
\<close>

record Account =
  isReadOnly :: bool

record Session =
  capabilities :: "string list"
  accounts :: "(string \<times> Account) list"

record EmailAddress =
  display_name :: "string option"
  email :: string

record Identity =
  identity_id :: string
  identity_name :: string
  identity_email :: string

record Mailbox =
  mailbox_id :: string

record BodyValue =
  bv_value :: string
  isTruncated :: bool
  isEncodingProblem :: bool

text \<open>An \<^verbatim>\<open>Email\<close> as \<^verbatim>\<open>reply_to_email\<close> requests it; \<open>None\<close> is a \<^verbatim>\<open>null\<close> member.\<close>

record Email =
  email_id :: string
  email_subject :: "string option"
  email_from :: "EmailAddress list option"
  email_to :: "EmailAddress list option"
  email_cc :: "EmailAddress list option"
  email_replyTo :: "EmailAddress list option"
  email_references :: "string list option"

text \<open>The object that the composing tools create; \<open>None\<close> is an absent member.\<close>

record EmailCreate =
  mailboxIds :: "(string \<times> bool) list option"
  ec_subject :: string
  ec_from :: "EmailAddress list option"
  ec_to :: "EmailAddress list"
  ec_cc :: "EmailAddress list option"
  ec_bcc :: "EmailAddress list option"
  ec_keywords :: "(string \<times> bool) list"
  bodyValues :: "(string \<times> BodyValue) list"
  attachments :: "string list"
  inReplyTo :: "string list option"
  references :: "string list option"

text \<open>The patch object \<^verbatim>\<open>{ keywords }\<close> of \<^verbatim>\<open>mark_emails\<close>.\<close>

datatype EmailPatch = KeywordsPatch "(string \<times> bool) list"

record SetResult =
  updated :: "string list option"
  notUpdated :: "(string \<times> string) list option"

type_synonym ('a, 'st) io = "'st \<Rightarrow> (error + 'a) \<times> 'st"

text \<open>
  \<open>Identity_get accountId ids\<close>, \<open>Mailbox_get accountId role\<close>,
  \<open>Email_get accountId ids properties\<close> return the \<^verbatim>\<open>list\<close> of the response.
  \<open>Email_set_create accountId key email\<close> and
  \<open>EmailSubmission_set accountId key emailId identityId\<close> return the id of
  \<^verbatim>\<open>created[key]\<close>, \<open>None\<close> when nothing was created under that key.
\<close>

record 'st JamApi =
  Identity_get :: "string \<Rightarrow> string list \<Rightarrow> (Identity list, 'st) io"
  Mailbox_get :: "string \<Rightarrow> string \<Rightarrow> (Mailbox list, 'st) io"
  Email_get :: "string \<Rightarrow> string list \<Rightarrow> string list \<Rightarrow> (Email list, 'st) io"
  Email_set_create :: "string \<Rightarrow> string \<Rightarrow> EmailCreate \<Rightarrow> (string option, 'st) io"
  Email_set_update :: "string \<Rightarrow> (string \<times> EmailPatch) list \<Rightarrow> (SetResult, 'st) io"
  EmailSubmission_set :: "string \<Rightarrow> string \<Rightarrow> string \<Rightarrow> string option \<Rightarrow> (string option, 'st) io"

record 'st JamClient =
  getPrimaryAccount :: "error + string"
  session :: "error + Session"
  api :: "'st JamApi"

text \<open>
  What the program takes from its platform and libraries: the host name of a URL
  (\<^verbatim>\<open>new URL(u).hostname\<close>), the URL test of the schema validator, the constructor
  of the protocol client, which sends its requests through the \<^verbatim>\<open>fetch\<close> that is
  installed, and the names of the members that every plain object inherits from
  \<^verbatim>\<open>Object.prototype\<close> (\<^verbatim>\<open>constructor\<close>, \<^verbatim>\<open>toString\<close>, \<^verbatim>\<open>valueOf\<close> and the others).
\<close>

record 'st Platform =
  urlHostname :: "string \<Rightarrow> string"
  isUrl :: "string \<Rightarrow> bool"
  newJamClient :: "string \<Rightarrow> string \<Rightarrow> Fetch \<Rightarrow> 'st JamClient"
  prototypeMembers :: "string list"

text \<open>
  Reading \<^verbatim>\<open>obj[key]\<close> of a plain object: its own member of that name, else the member
  of that name that it inherits, else \<^verbatim>\<open>undefined\<close> (\<open>None\<close>). An inherited member is a
  function of \<^verbatim>\<open>Object.prototype\<close>; all that the program reads of the result is its
  \<^verbatim>\<open>isReadOnly\<close>, which an inherited member does not have.
\<close>

datatype 'a member = Own 'a | Inherited

definition property :: "string list \<Rightarrow> (string \<times> 'a) list \<Rightarrow> string \<Rightarrow> 'a member option" where
  "property inherited obj key =
     (case map_of obj key of
        Some v \<Rightarrow> Some (Own v)
      | None \<Rightarrow> if key \<in> set inherited then Some Inherited else None)"

text \<open>\<^verbatim>\<open>account.isReadOnly\<close>: \<open>None\<close> is \<^verbatim>\<open>undefined\<close>.\<close>

definition readOnlyOf :: "Account member \<Rightarrow> bool option" where
  "readOnlyOf account = (case account of Own a \<Rightarrow> Some (isReadOnly a) | Inherited \<Rightarrow> None)"

text \<open>Truthiness of \<^verbatim>\<open>boolean | undefined\<close>.\<close>

definition truthy_flag :: "bool option \<Rightarrow> bool" where
  "truthy_flag b = (b = Some True)"

section \<open>Client construction\<close>

text \<open>
  \<^verbatim>\<open>createJAMClient\<close>, with the value of \<^verbatim>\<open>globalThis.fetch\<close> passed in and returned.
  The fields of its argument are prefixed with \<open>cfg\<close>, since \<^typ>\<open>AccountConfig\<close> has
  fields of the same names.
\<close>

record JMAPConfig =
  cfg_sessionUrl :: string
  cfg_bearerToken :: string
  cfg_accountId :: "string option"

definition createJAMClient ::
  "'st Platform \<Rightarrow> JMAPConfig \<Rightarrow> Fetch \<Rightarrow> 'st JamClient \<times> Fetch" where
  "createJAMClient P config globalFetch =
     (let hasBasicAuth = str_includes (cfg_bearerToken config) '':'' in
      if hasBasicAuth then
        let parts = split_limit (CHR '':'') 2 (cfg_bearerToken config);
            username = element parts 0;
            password = element parts 1;
            fetch' = patchedFetch (urlHostname P (cfg_sessionUrl config)) username password
                       globalFetch
        in (newJamClient P (cfg_sessionUrl config) (tmpl password) fetch', fetch')
      else
        (newJamClient P (cfg_sessionUrl config) (cfg_bearerToken config) globalFetch,
         globalFetch))"

section \<open>Server start-up\<close>

text \<open>
  \<^verbatim>\<open>AccountInfo\<close>; its \<open>name\<close>, \<open>accountId\<close> and \<open>isReadOnly\<close> are prefixed with \<open>info\<close>.
  The stored \<open>isReadOnly\<close> is what \<^verbatim>\<open>account.isReadOnly\<close> gave, \<open>None\<close> when that was
  \<^verbatim>\<open>undefined\<close>.
  The \<^verbatim>\<open>Map\<close> of accounts is an association list in insertion order: \<^verbatim>\<open>set\<close> keeps the
  place of a key that is present and appends a new one, as \<^const>\<open>AList.update\<close> does.
\<close>

record 'st AccountInfo =
  info_name :: string
  jam :: "'st JamClient"
  info_accountId :: string
  info_isReadOnly :: "bool option"
  hasSubmission :: bool

type_synonym 'st AccountMap = "(string \<times> 'st AccountInfo) list"

text \<open>
  \<^verbatim>\<open>getJMAPConfig\<close>. The arguments are the three environment variables; the accounts
  are parsed before the session URL is validated.
\<close>

definition getJMAPConfig ::
  "'st Platform \<Rightarrow> string option \<Rightarrow> string option \<Rightarrow> string option
   \<Rightarrow> error + string \<times> AccountConfig list" where
  "getJMAPConfig P envSessionUrl envTokens envToken =
     (if \<not> truthy_opt envSessionUrl then
        Inl (Error ''missing required environment variable: JMAP_SESSION_URL'')
      else
        case parseAccounts envTokens envToken of
          Inl e \<Rightarrow> Inl e
        | Inr accts \<Rightarrow>
            if isUrl P (the envSessionUrl) then Inr (the envSessionUrl, accts)
            else Inl ZodError)"

text \<open>
  One round of the loop of \<^verbatim>\<open>createServer\<close> over \<^verbatim>\<open>config.accounts\<close>. The state is the
  account map and the installed \<^verbatim>\<open>fetch\<close>. \<^verbatim>\<open>session.accounts[accountId]\<close> is a
  \<^const>\<open>property\<close> read: when the session does not list the account id, the result is
  the inherited member that the id names, or \<^verbatim>\<open>undefined\<close>, and reading
  \<^verbatim>\<open>isReadOnly\<close> of \<^verbatim>\<open>undefined\<close> is a \<open>TypeError\<close>. The two capability identifiers
  that are tested with \<^verbatim>\<open>in\<close> are not names of inherited members. A local name that is
  also a field name carries a prime.
\<close>

definition initAccount ::
  "'st Platform \<Rightarrow> string \<Rightarrow> AccountConfig \<Rightarrow> 'st AccountMap \<times> Fetch
   \<Rightarrow> error + 'st AccountMap \<times> Fetch" where
  \<open>initAccount P sessionUrl accountConfig st =
     (let (accountMap, globalFetch) = st;
          (jam', fetch') = createJAMClient P
             \<lparr>cfg_sessionUrl = sessionUrl, cfg_bearerToken = bearerToken accountConfig,
              cfg_accountId = accountId accountConfig\<rparr> globalFetch
      in case (if truthy_opt (accountId accountConfig) then Inr (the (accountId accountConfig))
               else getPrimaryAccount jam') of
           Inl e \<Rightarrow> Inl e
         | Inr accountId' \<Rightarrow>
            (case session jam' of
               Inl e \<Rightarrow> Inl e
             | Inr session' \<Rightarrow>
                 let account = property (prototypeMembers P) (accounts session') accountId' in
                 if ''urn:ietf:params:jmap:mail'' \<notin> set (capabilities session') then
                   Inl (Error (''account "'' @ name accountConfig
                               @ ''" does not support jmap mail capabilities''))
                 else
                   (case account of
                      None \<Rightarrow> Inl (TypeError ''account is undefined'')
                    | Some account' \<Rightarrow>
                        let hasSubmission' =
                              (''urn:ietf:params:jmap:submission'' \<in> set (capabilities session')
                               \<and> \<not> truthy_flag (readOnlyOf account'))
                        in Inr (AList.update (name accountConfig)
                                  \<lparr>info_name = name accountConfig, jam = jam',
                                   info_accountId = accountId',
                                   info_isReadOnly = readOnlyOf account',
                                   hasSubmission = hasSubmission'\<rparr> accountMap,
                                fetch'))))\<close>

text \<open>
  The loop. A throw ends it; the account map as it is at the throw is returned with the
  error.
\<close>

fun initAccounts ::
  "'st Platform \<Rightarrow> string \<Rightarrow> AccountConfig list \<Rightarrow> 'st AccountMap \<times> Fetch
   \<Rightarrow> (error \<times> 'st AccountMap) + ('st AccountMap \<times> Fetch)" where
  "initAccounts P sessionUrl [] st = Inr st"
| "initAccounts P sessionUrl (accountConfig # rest) st =
     (case initAccount P sessionUrl accountConfig st of
        Inl e \<Rightarrow> Inl (e, fst st)
      | Inr st' \<Rightarrow> initAccounts P sessionUrl rest st')"

text \<open>
  The names of the tools that \<^verbatim>\<open>registerEmailTools\<close> and
  \<^verbatim>\<open>registerEmailSubmissionTools\<close> register, in order.
\<close>

definition registerEmailTools :: "'st AccountMap \<Rightarrow> string list" where
  "registerEmailTools accountMap =
     (let hasAnyWriteAccess = list_ex (\<lambda>a. \<not> truthy_flag (info_isReadOnly a)) (map snd accountMap)
      in [''search_emails'', ''get_mailboxes'', ''get_emails'', ''get_threads'']
         @ (if hasAnyWriteAccess then [''mark_emails'', ''move_emails'', ''delete_emails'']
            else [])
         @ [''get_identities'', ''get_inbox_summary'', ''list_accounts''])"

definition registerEmailSubmissionTools :: "string list" where
  "registerEmailSubmissionTools =
     [''send_email'', ''reply_to_email'', ''create_draft'', ''update_draft'', ''send_draft'']"

text \<open>
  \<^verbatim>\<open>createServer\<close>: the configuration, the loop over the accounts, and the registration
  of the tools. The server instructions read \<^verbatim>\<open>firstAccount.name\<close>, a \<open>TypeError\<close> when
  the account map is empty.
\<close>

record 'st Server =
  server_accounts :: "'st AccountMap"
  server_tools :: "string list"

definition createServer ::
  "'st Platform \<Rightarrow> string option \<Rightarrow> string option \<Rightarrow> string option \<Rightarrow> Fetch
   \<Rightarrow> error + 'st Server" where
  "createServer P envSessionUrl envTokens envToken globalFetch =
     (case getJMAPConfig P envSessionUrl envTokens envToken of
        Inl e \<Rightarrow> Inl e
      | Inr (sessionUrl, accts) \<Rightarrow>
          (case initAccounts P sessionUrl accts ([], globalFetch) of
             Inl (e, accountMap) \<Rightarrow> Inl e
           | Inr (accountMap, fetch') \<Rightarrow>
               (case accountMap of
                  [] \<Rightarrow> Inl (TypeError ''firstAccount is undefined'')
                | firstAccount # rest \<Rightarrow>
                    let hasAnySubmission = list_ex hasSubmission (map snd accountMap)
                    in Inr \<lparr>server_accounts = accountMap,
                            server_tools = registerEmailTools accountMap
                              @ (if hasAnySubmission then registerEmailSubmissionTools
                                 else [])\<rparr>)))"

section \<open>Tool handlers\<close>

subsection \<open>Asynchronous code that may throw\<close>

text \<open>
  A handler is a function of the state of the mail server. \<open>andThen\<close> is a statement
  after an \<^verbatim>\<open>await\<close>, \<open>throw\<close> a \<^verbatim>\<open>throw\<close>, \<open>ret\<close> a \<^verbatim>\<open>return\<close>, and \<open>tryCatch\<close> the
  \<^verbatim>\<open>try { ... } catch (error) { return ... }\<close> around the body of every handler.
\<close>

definition andThen :: "('a, 'st) io \<Rightarrow> ('a \<Rightarrow> ('b, 'st) io) \<Rightarrow> ('b, 'st) io" where
  "andThen m f st = (case m st of (Inl e, st') \<Rightarrow> (Inl e, st') | (Inr a, st') \<Rightarrow> f a st')"

definition throw :: "error \<Rightarrow> ('a, 'st) io" where
  "throw e st = (Inl e, st)"

definition ret :: "'a \<Rightarrow> ('a, 'st) io" where
  "ret a st = (Inr a, st)"

definition lift :: "error + 'a \<Rightarrow> ('a, 'st) io" where
  "lift r st = (r, st)"

definition tryCatch :: "('a, 'st) io \<Rightarrow> (error \<Rightarrow> 'a) \<Rightarrow> 'st \<Rightarrow> 'a \<times> 'st" where
  "tryCatch m h st = (case m st of (Inl e, st') \<Rightarrow> (h e, st') | (Inr a, st') \<Rightarrow> (a, st'))"

subsection \<open>Account lookup\<close>

text \<open>
  \<^verbatim>\<open>getAccount\<close>, the same function in \<^verbatim>\<open>tools/email.ts\<close> and \<^verbatim>\<open>tools/submission.ts\<close>.
\<close>

definition getAccount :: "'st AccountMap \<Rightarrow> string option \<Rightarrow> error + 'st AccountInfo" where
  \<open>getAccount accountMap requestedAccount =
     (if truthy_opt requestedAccount then
        (case map_of accountMap (the requestedAccount) of
           None \<Rightarrow>
             let available = join '', '' (map fst accountMap)
             in Inl (Error (''account "'' @ the requestedAccount
                            @ ''" not found. available accounts: '' @ available))
         | Some account \<Rightarrow> Inr account)
      else
        (case accountMap of
           [] \<Rightarrow> Inl (Error ''no accounts configured'')
         | (k, firstAccount) # rest \<Rightarrow> Inr firstAccount))\<close>

subsection \<open>Arguments and results\<close>

text \<open>
  The arguments of a tool, after validation by its schema. Every schema spreads
  \<^verbatim>\<open>accountParam\<close>; the schemas of \<^verbatim>\<open>send_email\<close> and \<^verbatim>\<open>create_draft\<close> have the same
  members. An optional member is an \<^typ>\<open>'a option\<close>.
\<close>

record AccountParam =
  account :: "string option"

record ComposeParam = AccountParam +
  textBody :: "string option"
  htmlBody :: "string option"
  identityId :: "string option"

record SendEmailArgs = ComposeParam +
  args_to :: "EmailAddress list"
  args_cc :: "EmailAddress list option"
  args_bcc :: "EmailAddress list option"
  args_subject :: string

type_synonym CreateDraftArgs = SendEmailArgs

record ReplyToEmailArgs = ComposeParam +
  emailId :: string
  replyAll :: bool
  reply_subject :: "string option"

record MarkEmailsArgs = AccountParam +
  ids :: "string list"
  seen :: "bool option"
  flagged :: "bool option"

text \<open>
  The result of a tool is one text content. \<open>ErrorText\<close> is the text of a \<^verbatim>\<open>catch\<close>
  branch; each other constructor is the object that the handler passes to
  \<^verbatim>\<open>JSON.stringify\<close>, with its members in order.
\<close>

datatype ToolResult =
    ErrorText string
  | SentJson string "string option" bool
  | RepliedJson string "string option" bool bool
  | DraftJson string bool
  | MarkedJson "string list option" "(string \<times> string) list option"

subsection \<open>The composing tools\<close>

text \<open>
  The block \<^verbatim>\<open>if (args.identityId) { ... }\<close> that \<^verbatim>\<open>send_email\<close>, \<^verbatim>\<open>reply_to_email\<close> and
  \<^verbatim>\<open>create_draft\<close> share: the value of \<^verbatim>\<open>fromAddress\<close> after it.
\<close>

definition fromAddressOf :: "'st AccountInfo \<Rightarrow> string option \<Rightarrow> (EmailAddress list option, 'st) io" where
  "fromAddressOf acct identityId' =
     (if truthy_opt identityId' then
        andThen (Identity_get (api (jam acct)) (info_accountId acct) [the identityId'])
          (\<lambda>identityResult.
             case element identityResult 0 of
               None \<Rightarrow> ret None
             | Some identity \<Rightarrow>
                 ret (Some [\<lparr>display_name = Some (identity_name identity),
                             email = identity_email identity\<rparr>]))
      else ret None)"

text \<open>The member \<^verbatim>\<open>bodyValues\<close> of the three tools: a falsy body adds no entry.\<close>

definition bodyValuesOf :: "string option \<Rightarrow> string option \<Rightarrow> (string \<times> BodyValue) list" where
  "bodyValuesOf textBody' htmlBody' =
     (if truthy_opt textBody' then
        [(''text'', \<lparr>bv_value = the textBody', isTruncated = False, isEncodingProblem = False\<rparr>)]
      else [])
     @ (if truthy_opt htmlBody' then
          [(''html'', \<lparr>bv_value = the htmlBody', isTruncated = False, isEncodingProblem = False\<rparr>)]
        else [])"

definition send_email_body :: "'st AccountMap \<Rightarrow> SendEmailArgs \<Rightarrow> (ToolResult, 'st) io" where
  \<open>send_email_body accountMap args =
     andThen (lift (getAccount accountMap (account args))) (\<lambda>acct.
     if \<not> hasSubmission acct then
       throw (Error (''account "'' @ info_name acct @ ''" does not support email submission''))
     else if \<not> truthy_opt (textBody args) \<and> \<not> truthy_opt (htmlBody args) then
       throw (Error ''Either textBody or htmlBody must be provided'')
     else
     andThen (fromAddressOf acct (identityId args)) (\<lambda>fromAddress.
     andThen (Mailbox_get (api (jam acct)) (info_accountId acct) ''drafts'') (\<lambda>mailboxResult.
     let draftsMailbox = element mailboxResult 0;
         emailData = \<lparr>mailboxIds = map_option (\<lambda>m. [(mailbox_id m, True)]) draftsMailbox,
                      ec_subject = args_subject args, ec_from = fromAddress,
                      ec_to = args_to args, ec_cc = args_cc args, ec_bcc = args_bcc args,
                      ec_keywords = [(''$draft'', True)],
                      bodyValues = bodyValuesOf (textBody args) (htmlBody args),
                      attachments = [],
                      inReplyTo = None, references = None\<rparr>
     in
     andThen (Email_set_create (api (jam acct)) (info_accountId acct) ''draft1'' emailData)
       (\<lambda>created.
     case created of
       None \<Rightarrow> throw (Error ''Failed to create email draft'')
     | Some draftId \<Rightarrow>
     andThen (EmailSubmission_set (api (jam acct)) (info_accountId acct) ''submission1''
                draftId (identityId args)) (\<lambda>submission.
     ret (SentJson draftId submission (submission \<noteq> None)))))))\<close>

definition send_email ::
  "(error \<Rightarrow> string) \<Rightarrow> 'st AccountMap \<Rightarrow> SendEmailArgs \<Rightarrow> 'st \<Rightarrow> ToolResult \<times> 'st" where
  "send_email formatError accountMap args =
     tryCatch (send_email_body accountMap args)
       (\<lambda>error. ErrorText (''Error sending email: '' @ formatError error))"

text \<open>The subject of a reply; a \<^verbatim>\<open>null\<close> subject is printed as \<^verbatim>\<open>null\<close> by the template.\<close>

definition replySubjectOf :: "string option \<Rightarrow> string option \<Rightarrow> string" where
  "replySubjectOf subject' originalSubject =
     (if truthy_opt subject' then the subject'
      else case originalSubject of
             None \<Rightarrow> ''Re: null''
           | Some s \<Rightarrow> if prefix ''Re: '' s then s else ''Re: '' @ s)"

definition reply_to_email_body :: "'st AccountMap \<Rightarrow> ReplyToEmailArgs \<Rightarrow> (ToolResult, 'st) io" where
  \<open>reply_to_email_body accountMap args =
     andThen (lift (getAccount accountMap (account args))) (\<lambda>acct.
     if \<not> hasSubmission acct then
       throw (Error (''account "'' @ info_name acct @ ''" does not support email submission''))
     else if \<not> truthy_opt (textBody args) \<and> \<not> truthy_opt (htmlBody args) then
       throw (Error ''Either textBody or htmlBody must be provided'')
     else
     andThen (fromAddressOf acct (identityId args)) (\<lambda>fromAddress.
     andThen (Email_get (api (jam acct)) (info_accountId acct) [emailId args]
                [''id'', ''subject'', ''from'', ''to'', ''cc'', ''replyTo'', ''inReplyTo'',
                 ''references'']) (\<lambda>originalEmail.
     case element originalEmail 0 of
       None \<Rightarrow> throw (Error ''Original email not found'')
     | Some original \<Rightarrow>
     let replyTo = (case email_replyTo original of
                      Some (r # rs) \<Rightarrow> Some (r # rs)
                    | _ \<Rightarrow> email_from original);
         to = (case replyTo of None \<Rightarrow> [] | Some xs \<Rightarrow> xs);
         finalCc = (if replyAll args then
                      (case email_to original of None \<Rightarrow> [] | Some xs \<Rightarrow> xs)
                      @ (case email_cc original of None \<Rightarrow> [] | Some xs \<Rightarrow> xs)
                    else []);
         replySubject = replySubjectOf (reply_subject args) (email_subject original)
     in
     andThen (Mailbox_get (api (jam acct)) (info_accountId acct) ''drafts'') (\<lambda>mailboxResult.
     let draftsMailbox = element mailboxResult 0;
         emailData = \<lparr>mailboxIds = map_option (\<lambda>m. [(mailbox_id m, True)]) draftsMailbox,
                      ec_subject = replySubject, ec_from = fromAddress,
                      ec_to = to, ec_cc = Some finalCc, ec_bcc = None,
                      ec_keywords = [(''$draft'', True)],
                      bodyValues = bodyValuesOf (textBody args) (htmlBody args),
                      attachments = [],
                      inReplyTo = Some [email_id original],
                      references = Some (case email_references original of
                                           Some refs \<Rightarrow> refs @ [email_id original]
                                         | None \<Rightarrow> [email_id original])\<rparr>
     in
     andThen (Email_set_create (api (jam acct)) (info_accountId acct) ''reply1'' emailData)
       (\<lambda>created.
     case created of
       None \<Rightarrow> throw (Error ''Failed to create reply draft'')
     | Some replyId \<Rightarrow>
     andThen (EmailSubmission_set (api (jam acct)) (info_accountId acct) ''submission1''
                replyId (identityId args)) (\<lambda>submission.
     ret (RepliedJson replyId submission (submission \<noteq> None) (replyAll args))))))))\<close>

definition reply_to_email ::
  "(error \<Rightarrow> string) \<Rightarrow> 'st AccountMap \<Rightarrow> ReplyToEmailArgs \<Rightarrow> 'st \<Rightarrow> ToolResult \<times> 'st" where
  "reply_to_email formatError accountMap args =
     tryCatch (reply_to_email_body accountMap args)
       (\<lambda>error. ErrorText (''Error replying to email: '' @ formatError error))"

definition create_draft_body :: "'st AccountMap \<Rightarrow> CreateDraftArgs \<Rightarrow> (ToolResult, 'st) io" where
  \<open>create_draft_body accountMap args =
     andThen (lift (getAccount accountMap (account args))) (\<lambda>acct.
     if truthy_flag (info_isReadOnly acct) then
       throw (Error (''account "'' @ info_name acct @ ''" is read-only''))
     else if \<not> truthy_opt (textBody args) \<and> \<not> truthy_opt (htmlBody args) then
       throw (Error ''either textBody or htmlBody must be provided'')
     else
     andThen (fromAddressOf acct (identityId args)) (\<lambda>fromAddress.
     andThen (Mailbox_get (api (jam acct)) (info_accountId acct) ''drafts'') (\<lambda>mailboxResult.
     let draftsMailbox = element mailboxResult 0;
         emailData = \<lparr>mailboxIds = map_option (\<lambda>m. [(mailbox_id m, True)]) draftsMailbox,
                      ec_subject = args_subject args, ec_from = fromAddress,
                      ec_to = args_to args, ec_cc = args_cc args, ec_bcc = args_bcc args,
                      ec_keywords = [(''$draft'', True)],
                      bodyValues = bodyValuesOf (textBody args) (htmlBody args),
                      attachments = [],
                      inReplyTo = None, references = None\<rparr>
     in
     andThen (Email_set_create (api (jam acct)) (info_accountId acct) ''draft1'' emailData)
       (\<lambda>created.
     case created of
       None \<Rightarrow> throw (Error ''failed to create draft'')
     | Some draftId \<Rightarrow> ret (DraftJson draftId True)))))\<close>

definition create_draft ::
  "(error \<Rightarrow> string) \<Rightarrow> 'st AccountMap \<Rightarrow> CreateDraftArgs \<Rightarrow> 'st \<Rightarrow> ToolResult \<times> 'st" where
  "create_draft formatError accountMap args =
     tryCatch (create_draft_body accountMap args)
       (\<lambda>error. ErrorText (''error creating draft: '' @ formatError error))"

subsection \<open>\<^verbatim>\<open>mark_emails\<close>\<close>

text \<open>
  The objects \<^verbatim>\<open>keywords\<close> and \<^verbatim>\<open>updates\<close> are association lists read as maps: an
  assignment to a key is \<^const>\<open>AList.update\<close>. The program runs under Deno, where
  \<^verbatim>\<open>Object.prototype\<close> has no \<^verbatim>\<open>__proto__\<close> accessor, so that an assignment to any key
  makes an own member.
\<close>

definition markKeywords :: "bool option \<Rightarrow> bool option \<Rightarrow> (string \<times> bool) list" where
  "markKeywords seen' flagged' =
     (let keywords = [];
          keywords = (case seen' of None \<Rightarrow> keywords
                      | Some b \<Rightarrow> AList.update ''$seen'' b keywords);
          keywords = (case flagged' of None \<Rightarrow> keywords
                      | Some b \<Rightarrow> AList.update ''$flagged'' b keywords)
      in keywords)"

definition markUpdates :: "MarkEmailsArgs \<Rightarrow> (string \<times> EmailPatch) list" where
  "markUpdates args =
     fold (\<lambda>id updates.
             AList.update id (KeywordsPatch (markKeywords (seen args) (flagged args))) updates)
          (ids args) []"

definition mark_emails_body :: "'st AccountMap \<Rightarrow> MarkEmailsArgs \<Rightarrow> (ToolResult, 'st) io" where
  \<open>mark_emails_body accountMap args =
     andThen (lift (getAccount accountMap (account args))) (\<lambda>acct.
     if truthy_flag (info_isReadOnly acct) then
       throw (Error (''account "'' @ info_name acct @ ''" is read-only''))
     else
     let updates = markUpdates args in
     andThen (Email_set_update (api (jam acct)) (info_accountId acct) updates) (\<lambda>result.
     ret (MarkedJson (updated result) (notUpdated result))))\<close>

definition mark_emails ::
  "(error \<Rightarrow> string) \<Rightarrow> 'st AccountMap \<Rightarrow> MarkEmailsArgs \<Rightarrow> 'st \<Rightarrow> ToolResult \<times> 'st" where
  "mark_emails formatError accountMap args =
     tryCatch (mark_emails_body accountMap args)
       (\<lambda>error. ErrorText (''Error marking emails: '' @ formatError error))"

section \<open>Registered accounts\<close>

text \<open>The account map that the loop of \<^verbatim>\<open>createServer\<close> has built, at its end or at its throw.\<close>

definition accountMapOf ::
  "(error \<times> 'st AccountMap) + ('st AccountMap \<times> Fetch) \<Rightarrow> 'st AccountMap" where
  "accountMapOf r = (case r of Inl (e, m) \<Rightarrow> m | Inr (m, f) \<Rightarrow> m)"

text \<open>
  An entry of the account map agrees with the session of its client: the session has the
  mail capability, the stored \<open>isReadOnly\<close> is the \<^verbatim>\<open>isReadOnly\<close> of
  \<^verbatim>\<open>session.accounts[accountId]\<close> for the stored account id, and \<open>hasSubmission\<close> is the
  conjunction of the submission capability and of that \<^verbatim>\<open>isReadOnly\<close> not being truthy.
\<close>

definition classified :: "string list \<Rightarrow> 'st AccountInfo \<Rightarrow> bool" where
  "classified inherited info \<longleftrightarrow>
     (\<exists>sess account. session (jam info) = Inr sess
        \<and> ''urn:ietf:params:jmap:mail'' \<in> set (capabilities sess)
        \<and> property inherited (accounts sess) (info_accountId info) = Some account
        \<and> info_isReadOnly info = readOnlyOf account
        \<and> (hasSubmission info \<longleftrightarrow>
             ''urn:ietf:params:jmap:submission'' \<in> set (capabilities sess)
             \<and> \<not> truthy_flag (readOnlyOf account)))"

section \<open>A concrete deployment\<close>

text \<open>
  A platform, a mail server and a registry on which the definitions are evaluated. The
  state of the mail server is the list of the updates it has received; its
  \<^verbatim>\<open>Email/set\<close> accepts every update and every other method rejects. The session that a
  client sees depends on the password it was constructed with: \<^verbatim>\<open>pw1\<close> is a read-write
  account with mail and submission, \<^verbatim>\<open>pw2\<close> a read-only account with mail and submission,
  \<^verbatim>\<open>pw4\<close> a server with mail and submission whose primary account id \<^verbatim>\<open>constructor\<close> is
  not among the accounts it lists, any other password an account of a server without the
  mail capability. The inherited members are those of \<^verbatim>\<open>Object.prototype\<close> under Deno,
  which has no \<^verbatim>\<open>__proto__\<close> accessor.
\<close>

type_synonym MailStore = "(string \<times> EmailPatch) list list"

definition fixtureApi :: "MailStore JamApi" where
  "fixtureApi =
     \<lparr>Identity_get = (\<lambda>a i. throw (Error ''offline'')),
      Mailbox_get = (\<lambda>a r. throw (Error ''offline'')),
      Email_get = (\<lambda>a i p. throw (Error ''offline'')),
      Email_set_create = (\<lambda>a k e. throw (Error ''offline'')),
      Email_set_update =
        (\<lambda>a u st. (Inr \<lparr>updated = Some (map fst u), notUpdated = None\<rparr>, st @ [u])),
      EmailSubmission_set = (\<lambda>a k e i. throw (Error ''offline''))\<rparr>"

definition fixtureFormat :: "error \<Rightarrow> string" where
  "fixtureFormat e = (case e of Error m \<Rightarrow> m | TypeError m \<Rightarrow> m | ZodError \<Rightarrow> ''ZodError'')"

definition fixtureClient :: "string list \<Rightarrow> bool \<Rightarrow> MailStore JamClient" where
  "fixtureClient caps readOnly =
     \<lparr>getPrimaryAccount = Inr ''A1'',
      session = Inr \<lparr>capabilities = caps, accounts = [(''A1'', \<lparr>isReadOnly = readOnly\<rparr>)]\<rparr>,
      api = fixtureApi\<rparr>"

definition strayClient :: "MailStore JamClient" where
  "strayClient =
     \<lparr>getPrimaryAccount = Inr ''constructor'',
      session = Inr \<lparr>capabilities = [''urn:ietf:params:jmap:core'', ''urn:ietf:params:jmap:mail'',
                                      ''urn:ietf:params:jmap:submission''],
                     accounts = [(''A1'', \<lparr>isReadOnly = False\<rparr>)]\<rparr>,
      api = fixtureApi\<rparr>"

definition fixturePlatform :: "MailStore Platform" where
  "fixturePlatform =
     \<lparr>urlHostname = (\<lambda>u. ''mail.example.com''),
      isUrl = (\<lambda>u. True),
      newJamClient = (\<lambda>u token f.
         if token = ''pw1'' then
           fixtureClient [''urn:ietf:params:jmap:core'', ''urn:ietf:params:jmap:mail'',
                          ''urn:ietf:params:jmap:submission''] False
         else if token = ''pw2'' then
           fixtureClient [''urn:ietf:params:jmap:core'', ''urn:ietf:params:jmap:mail'',
                          ''urn:ietf:params:jmap:submission''] True
         else if token = ''pw4'' then strayClient
         else fixtureClient [''urn:ietf:params:jmap:core''] False),
      prototypeMembers =
        [''constructor'', ''hasOwnProperty'', ''isPrototypeOf'', ''propertyIsEnumerable'',
         ''toLocaleString'', ''toString'', ''valueOf'', ''__defineGetter__'',
         ''__defineSetter__'', ''__lookupGetter__'', ''__lookupSetter__'']\<rparr>"

definition noFetch :: Fetch where
  "noFetch req =
     \<lparr>status = 404, statusText = ''Not Found'', responseHeaders = [], body = NotJson []\<rparr>"

definition fixtureAccounts :: "AccountConfig list" where
  "fixtureAccounts =
     [\<lparr>name = ''alice'', bearerToken = ''alice:pw1'', accountId = None\<rparr>,
      \<lparr>name = ''bob'', bearerToken = ''bob:pw2'', accountId = None\<rparr>]"

definition fixtureRegistry :: "MailStore AccountMap" where
  "fixtureRegistry =
     [(''alice'', \<lparr>info_name = ''alice'',
              jam = fixtureClient [''urn:ietf:params:jmap:core'', ''urn:ietf:params:jmap:mail'',
                                   ''urn:ietf:params:jmap:submission''] False,
              info_accountId = ''A1'', info_isReadOnly = Some False, hasSubmission = True\<rparr>),
      (''bob'', \<lparr>info_name = ''bob'',
              jam = fixtureClient [''urn:ietf:params:jmap:core'', ''urn:ietf:params:jmap:mail'',
                                   ''urn:ietf:params:jmap:submission''] True,
              info_accountId = ''A1'', info_isReadOnly = Some True, hasSubmission = False\<rparr>)]"

definition fixtureCompose :: SendEmailArgs where
  "fixtureCompose =
     \<lparr>account = None, textBody = None, htmlBody = None, identityId = None,
      args_to = [\<lparr>display_name = None, email = ''carol@example.com''\<rparr>],
      args_cc = None, args_bcc = None, args_subject = ''hello''\<rparr>"

definition fixtureReply :: ReplyToEmailArgs where
  "fixtureReply =
     \<lparr>account = None, textBody = None, htmlBody = None, identityId = None,
      emailId = ''e1'', replyAll = False, reply_subject = None\<rparr>"

section \<open>Properties of the string functions\<close>

lemma split_nosep: "c \<notin> set l \<Longrightarrow> split c l = [l]"
  by (induction l) (auto split: list.splits)

lemma split_append_sep: "c \<notin> set l \<Longrightarrow> split c (l @ c # r) = l # split c r"
  by (induction l) (auto split: list.splits)

lemma split_join:
  "ls \<noteq> [] \<Longrightarrow> \<forall>l\<in>set ls. c \<notin> set l \<Longrightarrow> split c (join [c] ls) = ls"
proof (induction "[c]" ls rule: join.induct)
  case 1
  then show ?case by simp
next
  case (2 x)
  then show ?case by (simp add: split_nosep)
next
  case (3 x y ys)
  then show ?case by (simp add: split_append_sep)
qed

lemma split_first:
  "split c s =
     takeWhile (\<lambda>x. x \<noteq> c) s
     # (case dropWhile (\<lambda>x. x \<noteq> c) s of [] \<Rightarrow> [] | x # r \<Rightarrow> split c r)"
  by (induction s) (auto split: list.splits)

lemma str_includes_single: "str_includes s [c] \<longleftrightarrow> c \<in> set s"
  by (induction s) auto

text \<open>
  \<^verbatim>\<open>s.split(c, 2)\<close> of a string with a separator: the part before the first separator,
  and the part between the first separator and the second one, or the end.
\<close>

lemma split_limit_two:
  assumes "c \<in> set s"
  shows "split_limit c 2 s =
           [takeWhile (\<lambda>x. x \<noteq> c) s,
            takeWhile (\<lambda>x. x \<noteq> c) (tl (dropWhile (\<lambda>x. x \<noteq> c) s))]"
proof -
  from assms obtain r where d: "dropWhile (\<lambda>x. x \<noteq> c) s = c # r"
    by (metis (mono_tags, lifting) dropWhile_eq_Nil_conv hd_dropWhile list.collapse)
  have "split c s = takeWhile (\<lambda>x. x \<noteq> c) s # split c r"
    using split_first [of c s] d by simp
  also have "split c r = takeWhile (\<lambda>x. x \<noteq> c) r
               # (case dropWhile (\<lambda>x. x \<noteq> c) r of [] \<Rightarrow> [] | x # r' \<Rightarrow> split c r')"
    by (rule split_first)
  finally show ?thesis
    using d by (simp add: split_limit_def)
qed

lemma join_ne: "ls \<noteq> [] \<Longrightarrow> \<forall>l\<in>set ls. l \<noteq> [] \<Longrightarrow> join sep ls \<noteq> []"
  by (induction sep ls rule: join.induct) auto

lemma mem_dropWhile: "x \<in> set xs \<Longrightarrow> \<not> P x \<Longrightarrow> x \<in> set (dropWhile P xs)"
  by (induction xs) auto

lemma mem_trim: "x \<in> set s \<Longrightarrow> \<not> is_ws x \<Longrightarrow> x \<in> set (trim s)"
  by (simp add: trim_def mem_dropWhile)

lemma trim_Nil: "trim [] = []"
  by (simp add: trim_def)

lemma colon_not_ws: "\<not> is_ws (CHR '':'')"
  by (simp add: is_ws_def)

lemma substring0_indexOf:
  "c \<in> set s \<Longrightarrow> substring0 s (indexOf s c) = takeWhile (\<lambda>x. x \<noteq> c) s"
  by (simp add: substring0_def indexOf_def takeWhile_eq_take [symmetric])

lemma indexOf_neg: "indexOf s c = - 1 \<longleftrightarrow> c \<notin> set s"
  by (simp add: indexOf_def)

lemma replace_absent: "\<not> str_includes s pat \<Longrightarrow> replace pat rep s = s"
  by (induction s) auto

lemma replace_length:
  "str_includes s pat \<Longrightarrow> length (replace pat rep s) + length pat = length s + length rep"
proof (induction s)
  case Nil
  then show ?case by simp
next
  case (Cons c cs)
  show ?case
  proof (cases "prefix pat (c # cs)")
    case True
    then have "length pat \<le> length (c # cs)" by (rule prefix_length_le)
    with True show ?thesis by simp
  next
    case False
    with Cons show ?thesis by simp
  qed
qed

text \<open>\<^const>\<open>str_includes\<close> is the substring relation.\<close>

lemma str_includes_iff: "str_includes s pat \<longleftrightarrow> (\<exists>a b. s = a @ pat @ b)"
proof (induction s)
  case Nil
  then show ?case by auto
next
  case (Cons c cs)
  show ?case
  proof
    assume "str_includes (c # cs) pat"
    then consider "prefix pat (c # cs)" | "str_includes cs pat" by auto
    then show "\<exists>a b. c # cs = a @ pat @ b"
    proof cases
      case 1
      then obtain b where "c # cs = pat @ b" by (auto simp: prefix_def)
      then have "c # cs = [] @ pat @ b" by simp
      then show ?thesis by blast
    next
      case 2
      with Cons obtain a b where "cs = a @ pat @ b" by blast
      then have "c # cs = (c # a) @ pat @ b" by simp
      then show ?thesis by blast
    qed
  next
    assume "\<exists>a b. c # cs = a @ pat @ b"
    then obtain a b where ab: "c # cs = a @ pat @ b" by blast
    show "str_includes (c # cs) pat"
    proof (cases a)
      case Nil
      with ab have "prefix pat (c # cs)" by (simp add: prefix_def)
      then show ?thesis by simp
    next
      case (Cons x xs)
      with ab have "cs = xs @ pat @ b" by simp
      with Cons.IH show ?thesis by auto
    qed
  qed
qed

lemma str_includes_skip:
  "c \<notin> set a \<Longrightarrow> str_includes (a @ b) (c # pat) \<longleftrightarrow> str_includes b (c # pat)"
  by (induction a) auto

lemma str_includes_char: "c \<in> set pat \<Longrightarrow> c \<notin> set s \<Longrightarrow> \<not> str_includes s pat"
  by (auto simp: str_includes_iff)

section \<open>The credential parser\<close>

lemma parseToken_ok:
  "CHR '':'' \<in> set t \<Longrightarrow> hd t \<noteq> CHR '':'' \<Longrightarrow>
   parseToken t =
     Inr \<lparr>name = takeWhile (\<lambda>c. c \<noteq> CHR '':'') t, bearerToken = t, accountId = None\<rparr>"
  by (cases t) (auto simp: parseToken_def indexOf_neg substring0_indexOf truthy_def Let_def)

lemma parseToken_nocolon:
  \<open>CHR '':'' \<notin> set t \<Longrightarrow>
   parseToken t =
     Inl (Error (''invalid token format, expected "username:password", got: '' @ take 20 t))\<close>
  by (simp add: parseToken_def indexOf_def substring0_def)

lemma parseToken_name: "parseToken t = Inr c \<Longrightarrow> name c \<noteq> []"
  by (auto simp: parseToken_def truthy_def Let_def split: if_splits)

lemma mapE_all_ok: "\<forall>t\<in>set ts. f t = Inr (g t) \<Longrightarrow> mapE f ts = Inr (map g ts)"
  by (induction ts) auto

lemma mapE_first_error:
  "\<forall>p\<in>set pre. \<exists>y. f p = Inr y \<Longrightarrow> f t = Inl e \<Longrightarrow> mapE f (pre @ t # post) = Inl e"
  by (induction pre) auto

lemma mapE_each:
  "mapE f ts = Inr cs \<Longrightarrow> c \<in> set cs \<Longrightarrow> \<exists>t\<in>set ts. f t = Inr c"
  by (induction ts arbitrary: cs) (auto split: sum.splits)

text \<open>
  The multi-account form keeps the invariant of the data model: a credential that
  \<^const>\<open>parseAccounts\<close> returns from \<^verbatim>\<open>JMAP_BEARER_TOKENS\<close> has a non-empty name.
\<close>

lemma parseAccounts_multi_names:
  assumes "truthy_opt envTokens" and "parseAccounts envTokens envToken = Inr cs" and "c \<in> set cs"
  shows "name c \<noteq> []"
proof -
  from assms(1,2) have "mapE parseToken (filter truthy (map trim (split (CHR 0x0A) (the envTokens)))) = Inr cs"
    by (simp add: parseAccounts_def)
  from mapE_each [OF this assms(3)] show ?thesis
    by (auto dest: parseToken_name)
qed

text \<open>
  C2. Every credential produced by the parser has a non-empty name, a parse that would
  give an empty name fails. The single-account fallback does not do this: with
  \<^verbatim>\<open>JMAP_BEARER_TOKENS\<close> unset and \<^verbatim>\<open>JMAP_BEARER_TOKEN=":secret"\<close> the parser returns a
  credential whose name is the empty string, where the multi-account form throws
  \<^verbatim>\<open>account name cannot be empty\<close> on the same entry.
\<close>

theorem C2_single_account_empty_name:
  "parseAccounts None (Some '':secret'') =
     Inr [\<lparr>name = [], bearerToken = '':secret'', accountId = None\<rparr>]
   \<and> parseAccounts (Some '':secret'') None = Inl (Error ''account name cannot be empty'')"
  by (simp add: parseAccounts_def truthy_opt_def truthy_def indexOf_def substring0_def
      trim_def is_ws_def parseToken_def)

text \<open>
  The entries of a blob written as lines joined by line feeds are the lines, trimmed,
  without the empty ones.
\<close>

lemma entries_of_lines:
  assumes "ls \<noteq> []" and "\<forall>l\<in>set ls. CHR 0x0A \<notin> set l"
  shows "filter truthy (map trim (split (CHR 0x0A) (join [CHR 0x0A] ls)))
           = filter truthy (map trim ls)"
  using assms by (simp add: split_join)

text \<open>
  C5, as the code has it. The entries of a multi-account blob are its lines, trimmed,
  without the lines that are empty after trimming, in the order of the lines. For every
  non-empty blob whose \<open>k\<close> entries each contain a \<^verbatim>\<open>:\<close> and do not begin with \<^verbatim>\<open>:\<close>,
  the parser returns exactly \<open>k\<close> credentials in the order of the entries; the name of
  each is the part of the entry before its first \<^verbatim>\<open>:\<close> and the secret is the whole
  entry. Blank lines may occur anywhere in the blob.
\<close>

theorem C5_parse_multi_roundtrip:
  assumes "blob \<noteq> []"
    and "\<forall>t\<in>set (filter truthy (map trim (split (CHR 0x0A) blob))).
           CHR '':'' \<in> set t \<and> hd t \<noteq> CHR '':''"
  shows "parseAccounts (Some blob) envToken =
         Inr (map (\<lambda>t. \<lparr>name = takeWhile (\<lambda>c. c \<noteq> CHR '':'') t, bearerToken = t,
                          accountId = None\<rparr>)
                (filter truthy (map trim (split (CHR 0x0A) blob))))"
proof -
  let ?tokens = "filter truthy (map trim (split (CHR 0x0A) blob))"
  have ok: "\<forall>t\<in>set ?tokens. parseToken t =
      Inr \<lparr>name = takeWhile (\<lambda>c. c \<noteq> CHR '':'') t, bearerToken = t, accountId = None\<rparr>"
    using assms(2) by (auto intro!: parseToken_ok)
  show ?thesis
    unfolding parseAccounts_def using assms(1) mapE_all_ok [OF ok]
    by (simp add: truthy_opt_def truthy_def)
qed

theorem C5_parse_multi_roundtrip_witness:
  "parseAccounts
     (Some (''alice:pw'' @ [CHR 0x0A] @ ''  '' @ [CHR 0x0A] @ '' bob:x:y '' @ [CHR 0x0A])) None =
     Inr [\<lparr>name = ''alice'', bearerToken = ''alice:pw'', accountId = None\<rparr>,
          \<lparr>name = ''bob'', bearerToken = ''bob:x:y'', accountId = None\<rparr>]"
  using C5_parse_multi_roundtrip
          [of "''alice:pw'' @ [CHR 0x0A] @ ''  '' @ [CHR 0x0A] @ '' bob:x:y '' @ [CHR 0x0A]" None]
  by (simp add: trim_def is_ws_def truthy_def)

text \<open>
  C5 as stated fails on a line that begins with \<^verbatim>\<open>:\<close>: the blob \<^verbatim>\<open>:secret\<close> is one line,
  non-empty after trimming and containing a \<^verbatim>\<open>:\<close>, and the parser throws instead of
  returning one credential.
\<close>

theorem C5_empty_name_counterexample:
  "split (CHR 0x0A) '':secret'' = ['':secret'']
   \<and> trim '':secret'' \<noteq> []
   \<and> CHR '':'' \<in> set '':secret''
   \<and> parseAccounts (Some '':secret'') None = Inl (Error ''account name cannot be empty'')"
  by (simp add: parseAccounts_def truthy_opt_def truthy_def indexOf_def substring0_def
      trim_def is_ws_def parseToken_def)

text \<open>
  C6, as the code has it. When the first entry of a multi-account blob that does not
  parse is a trimmed non-empty entry \<open>t\<close> with no \<^verbatim>\<open>:\<close> (every entry before it has a
  \<^verbatim>\<open>:\<close> after a non-empty name), parsing throws the format error whose message is the
  fixed text followed by the first 20 characters of \<open>t\<close>; that preview is not the full
  entry when the entry is longer than 20 characters.
\<close>

theorem C6_format_error_preview:
  assumes "blob \<noteq> []"
    and "filter truthy (map trim (split (CHR 0x0A) blob)) = pre @ t # post"
    and "\<forall>p\<in>set pre. CHR '':'' \<in> set p \<and> hd p \<noteq> CHR '':''"
    and "CHR '':'' \<notin> set t"
  shows \<open>parseAccounts (Some blob) envToken =
           Inl (Error (''invalid token format, expected "username:password", got: '' @ take 20 t))
         \<and> length (take 20 t) \<le> 20
         \<and> (20 < length t \<longrightarrow> take 20 t \<noteq> t)\<close>
proof -
  have ok: "\<forall>p\<in>set pre. \<exists>y. parseToken p = Inr y"
    using assms(3) by (auto simp: parseToken_ok)
  have "mapE parseToken (pre @ t # post) =
        Inl (Error (''invalid token format, expected \"username:password\", got: '' @ take 20 t))"
    using mapE_first_error [OF ok parseToken_nocolon [OF assms(4)]] .
  moreover have "20 < length t \<longrightarrow> take 20 t \<noteq> t"
    by (metis length_take min.absorb2 less_imp_le_nat nat_neq_iff)
  ultimately show ?thesis
    using assms(1,2) by (simp add: parseAccounts_def truthy_opt_def truthy_def)
qed

theorem C6_format_error_preview_witness:
  \<open>parseAccounts (Some (''alice:pw'' @ [CHR 0x0A] @ ''0123456789abcdefghijklmnop'')) None =
     Inl (Error ''invalid token format, expected "username:password", got: 0123456789abcdefghij'')\<close>
  using C6_format_error_preview [of "''alice:pw'' @ [CHR 0x0A] @ ''0123456789abcdefghijklmnop''"
               "[''alice:pw'']" "''0123456789abcdefghijklmnop''" "[]" None]
  by (simp add: trim_def is_ws_def truthy_def)

text \<open>
  C6 as stated fails when an entry with an empty name comes first. The blob of the two
  lines \<^verbatim>\<open>:x\<close> and \<^verbatim>\<open>abc\<close> contains the trimmed non-empty entry \<^verbatim>\<open>abc\<close> with no
  \<^verbatim>\<open>:\<close>, and the error thrown is the empty-name error, not the format error with a
  preview of that entry. With \<^verbatim>\<open>account name cannot be empty\<close> as the second line, an
  entry of 28 characters with no \<^verbatim>\<open>:\<close>, the message thrown is the full text of that
  entry.
\<close>

theorem C6_earlier_entry_counterexample:
  \<open>filter truthy (map trim (split (CHR 0x0A) ('':x'' @ [CHR 0x0A] @ ''abc''))) = ['':x'', ''abc'']
   \<and> CHR '':'' \<notin> set ''abc''
   \<and> parseAccounts (Some ('':x'' @ [CHR 0x0A] @ ''abc'')) None
       = Inl (Error ''account name cannot be empty'')
   \<and> \<not> str_includes ''account name cannot be empty'' ''invalid token format''
   \<and> filter truthy (map trim (split (CHR 0x0A)
         ('':x'' @ [CHR 0x0A] @ ''account name cannot be empty'')))
       = ['':x'', ''account name cannot be empty'']
   \<and> CHR '':'' \<notin> set ''account name cannot be empty''
   \<and> 20 < length ''account name cannot be empty''
   \<and> parseAccounts (Some ('':x'' @ [CHR 0x0A] @ ''account name cannot be empty'')) None
       = Inl (Error ''account name cannot be empty'')\<close>
  by (simp add: parseAccounts_def truthy_opt_def truthy_def indexOf_def substring0_def
      trim_def is_ws_def parseToken_def)

section \<open>The transport auth adapter\<close>

lemma patchedFetch_other:
  "\<not> str_includes (url req) ''jmap'' \<Longrightarrow> \<not> str_includes (url req) hostname \<Longrightarrow>
   patchedFetch hostname username password originalFetch req = originalFetch req"
  by (simp add: patchedFetch_def)

lemma set_header_lookup: "map_of (set_header hs n v) n = Some v"
  by (induction hs n v rule: set_header.induct) auto

text \<open>
  A request to a matching URL that is not a session URL and carries an
  \<^verbatim>\<open>Authorization\<close> header goes to the original \<^verbatim>\<open>fetch\<close> with that header set to
  \<^verbatim>\<open>Basic\<close> and the base64 of the user name and password that the adapter holds.
\<close>

lemma patchedFetch_rewrites:
  assumes "str_includes (url req) ''jmap'' \<or> str_includes (url req) hostname"
    and "\<not> str_includes (url req) ''session''"
    and "\<not> str_includes (url req) ''.well-known/jmap''"
    and "Headers_has (Headers_new (headers req)) ''Authorization''"
  shows "\<exists>hs. patchedFetch hostname (Some username) (Some password) originalFetch req
                = originalFetch (req\<lparr>headers := hs\<rparr>)
              \<and> map_of hs ''authorization''
                = Some (''Basic '' @ btoa (username @ '':'' @ password))"
proof -
  have l: "map lower ''Authorization'' = ''authorization''"
    by (simp add: lower_def)
  let ?hs = "Headers_set (Headers_new (headers req)) ''Authorization''
               (''Basic '' @ btoa (username @ '':'' @ password))"
  have "patchedFetch hostname (Some username) (Some password) originalFetch req
          = originalFetch (req\<lparr>headers := ?hs\<rparr>)"
    using assms by (simp add: patchedFetch_def tmpl_def Let_def)
  moreover have "map_of ?hs ''authorization''
                   = Some (''Basic '' @ btoa (username @ '':'' @ password))"
    unfolding Headers_set_def l by (rule set_header_lookup)
  ultimately show ?thesis by blast
qed

text \<open>
  Every account with a \<^verbatim>\<open>:\<close> in its secret installs its own patch around the
  \<^verbatim>\<open>fetch\<close> that is installed. With the two accounts \<^verbatim>\<open>alice:pw1\<close> and \<^verbatim>\<open>bob:pw2\<close> a
  request passes the patch of the second account first and the patch of the first account
  last, and reaches the network with the credentials of the first account.
\<close>

lemma patchedFetch_stacked:
  "patchedFetch ''mail.example.com'' (Some ''bob'') (Some ''pw2'')
      (patchedFetch ''mail.example.com'' (Some ''alice'') (Some ''pw1'') f0)
      \<lparr>url = ''https://mail.example.com/api'',
       headers = [(''Authorization'', ''Bearer pw2'')], init_rest = r\<rparr>
   = f0 \<lparr>url = ''https://mail.example.com/api'',
         headers = [(''authorization'', ''Basic '' @ btoa ''alice:pw1'')], init_rest = r\<rparr>"
  by (simp add: patchedFetch_def Headers_new_def Headers_has_def Headers_set_def lower_def
      tmpl_def Let_def)

text \<open>
  What \<^verbatim>\<open>createJAMClient\<close> takes from a secret with a \<^verbatim>\<open>:\<close>: the user name is the part
  before the first \<^verbatim>\<open>:\<close>, the password the part between the first \<^verbatim>\<open>:\<close> and the second
  one, or the end of the secret when there is no second one.
\<close>

lemma createJAMClient_basic:
  assumes "CHR '':'' \<in> set (cfg_bearerToken config)"
  defines "username \<equiv> takeWhile (\<lambda>x. x \<noteq> CHR '':'') (cfg_bearerToken config)"
    and "password \<equiv> takeWhile (\<lambda>x. x \<noteq> CHR '':'')
                        (tl (dropWhile (\<lambda>x. x \<noteq> CHR '':'') (cfg_bearerToken config)))"
  shows "createJAMClient P config f0 =
           (newJamClient P (cfg_sessionUrl config) password
              (patchedFetch (urlHostname P (cfg_sessionUrl config)) (Some username)
                 (Some password) f0),
            patchedFetch (urlHostname P (cfg_sessionUrl config)) (Some username)
              (Some password) f0)"
  using assms(1) split_limit_two [OF assms(1)]
  by (simp add: createJAMClient_def str_includes_single element_def tmpl_def Let_def
      username_def password_def)

text \<open>
  C1. The adapter splits the secret at its first \<^verbatim>\<open>:\<close> and the password is everything
  after it. The code does not do this for a secret with a second \<^verbatim>\<open>:\<close>:
  \<^verbatim>\<open>split(":", 2)\<close> drops what follows the second separator. For the secret
  \<^verbatim>\<open>alice:pa:ss\<close> the client is given the password \<^verbatim>\<open>pa\<close>, and a request to the
  configured host goes out with \<^verbatim>\<open>Basic\<close> of \<^verbatim>\<open>alice:pa\<close>, which is not \<^verbatim>\<open>Basic\<close> of
  \<^verbatim>\<open>alice:pa:ss\<close>.
\<close>

theorem C1_password_truncated:
  "createJAMClient P
       \<lparr>cfg_sessionUrl = u, cfg_bearerToken = ''alice:pa:ss'', cfg_accountId = None\<rparr> f0
     = (newJamClient P u ''pa''
          (patchedFetch (urlHostname P u) (Some ''alice'') (Some ''pa'') f0),
        patchedFetch (urlHostname P u) (Some ''alice'') (Some ''pa'') f0)
   \<and> patchedFetch ''mail.example.com'' (Some ''alice'') (Some ''pa'') f0
         \<lparr>url = ''https://mail.example.com/api'',
          headers = [(''Authorization'', ''Bearer pa'')], init_rest = r\<rparr>
       = f0 \<lparr>url = ''https://mail.example.com/api'',
             headers = [(''authorization'', ''Basic YWxpY2U6cGE='')], init_rest = r\<rparr>
   \<and> ''Basic '' @ btoa (''alice'' @ '':'' @ ''pa:ss'') = ''Basic YWxpY2U6cGE6c3M=''"
  by (simp add: createJAMClient_def split_limit_def element_def tmpl_def patchedFetch_def
      Headers_new_def Headers_has_def Headers_set_def lower_def btoa_def b64_def b64chars_def
      Let_def)

subsection \<open>Endpoint repair\<close>

lemma rewrite_changes:
  assumes "needsRepair v"
  shows "rewriteApiUrl v \<noteq> v"
proof -
  let ?w = "replace ''http://'' ''https://'' v"
  from assms have "str_includes v ''http://''"
    by (simp add: needsRepair_def)
  from replace_length [OF this, of "''https://''"] have w: "length ?w = length v + 1"
    by simp
  have "length (replace '':8080'' [] ?w) \<noteq> length v"
  proof (cases "str_includes ?w '':8080''")
    case True
    from replace_length [OF this, of "[]"] w show ?thesis by simp
  next
    case False
    then show ?thesis using w by (simp add: replace_absent)
  qed
  then show ?thesis by (auto simp: rewriteApiUrl_def)
qed

lemma needsRepair_iff:
  "needsRepair u \<longleftrightarrow> str_includes u ''http://'' \<and> str_includes u '':8080''"
  by (cases u) (auto simp: needsRepair_def truthy_def)

lemma fix_unchanged:
  "\<not> (str_includes u ''http://'' \<and> str_includes u '':8080'') \<Longrightarrow> fixApiUrl u = u"
  by (auto simp: fixApiUrl_def needsRepair_def)

lemma fix_fixpoint: "fixApiUrl v = v \<longleftrightarrow> \<not> needsRepair v"
  using rewrite_changes [of v] by (auto simp: fixApiUrl_def)

lemma replace_colon_free:
  "CHR '':'' \<notin> set h \<Longrightarrow> replace '':8080'' [] (h @ '':8080'' @ p) = h @ p"
  by (induction h) auto

lemma fix_typical:
  assumes "CHR '':'' \<notin> set h" and "\<not> str_includes r '':8080''"
  shows "fixApiUrl (''http://'' @ h @ '':8080'' @ r) = ''https://'' @ h @ r"
    and "fixApiUrl (''https://'' @ h @ r) = ''https://'' @ h @ r"
proof -
  have inc1: "str_includes (''http://'' @ h @ '':8080'' @ r) ''http://''"
    by simp
  have "str_includes (''http://'' @ h @ '':8080'' @ r) '':8080''"
    unfolding str_includes_iff by (rule exI [of _ "''http://'' @ h"], rule exI [of _ r]) simp
  with inc1 have nr: "needsRepair (''http://'' @ h @ '':8080'' @ r)"
    by (simp add: needsRepair_def truthy_def)
  have "rewriteApiUrl (''http://'' @ h @ '':8080'' @ r) = ''https://'' @ h @ r"
    using replace_colon_free [OF assms(1), of r] by (simp add: rewriteApiUrl_def)
  with nr show "fixApiUrl (''http://'' @ h @ '':8080'' @ r) = ''https://'' @ h @ r"
    by (simp add: fixApiUrl_def)
  have "\<not> str_includes (h @ r) '':8080''"
    using assms by (simp add: str_includes_skip)
  then have "\<not> str_includes (''https://'' @ h @ r) '':8080''"
    by simp
  then show "fixApiUrl (''https://'' @ h @ r) = ''https://'' @ h @ r"
    by (simp add: fixApiUrl_def needsRepair_def)
qed

text \<open>
  C7, as the code has it. The repair leaves unchanged every URL that does not contain
  \<^verbatim>\<open>http://\<close> or does not contain \<^verbatim>\<open>:8080\<close>. A URL \<^verbatim>\<open>http://\<close> host \<^verbatim>\<open>:8080\<close> rest, whose
  host has no \<^verbatim>\<open>:\<close> and whose rest has no \<^verbatim>\<open>:8080\<close>, is repaired to \<^verbatim>\<open>https://\<close> host
  rest. On the URLs of these two kinds, applying the repair twice gives the same string
  as applying it once.
\<close>

theorem C7_repair_idempotence:
  "(\<not> str_includes u ''http://'' \<or> \<not> str_includes u '':8080'' \<longrightarrow>
      fixApiUrl u = u \<and> fixApiUrl (fixApiUrl u) = fixApiUrl u)
   \<and> (CHR '':'' \<notin> set h \<and> \<not> str_includes r '':8080'' \<longrightarrow>
        fixApiUrl (''http://'' @ h @ '':8080'' @ r) = ''https://'' @ h @ r
        \<and> fixApiUrl (fixApiUrl (''http://'' @ h @ '':8080'' @ r))
            = fixApiUrl (''http://'' @ h @ '':8080'' @ r))"
proof (intro conjI impI)
  assume a: "\<not> str_includes u ''http://'' \<or> \<not> str_includes u '':8080''"
  then show "fixApiUrl u = u"
    using fix_unchanged [of u] by blast
  then show "fixApiUrl (fixApiUrl u) = fixApiUrl u"
    by simp
next
  assume a: "CHR '':'' \<notin> set h \<and> \<not> str_includes r '':8080''"
  then show "fixApiUrl (''http://'' @ h @ '':8080'' @ r) = ''https://'' @ h @ r"
    using fix_typical(1) [of h r] by blast
  then show "fixApiUrl (fixApiUrl (''http://'' @ h @ '':8080'' @ r))
            = fixApiUrl (''http://'' @ h @ '':8080'' @ r)"
    using a fix_typical(2) [of h r] by simp
qed

theorem C7_repair_idempotence_witness:
  "fixApiUrl ''https://mail.example.com/jmap/'' = ''https://mail.example.com/jmap/''
   \<and> fixApiUrl ''http://mail.example.com:8080/jmap/?next=http://x/''
       = ''https://mail.example.com/jmap/?next=http://x/''
   \<and> fixApiUrl (fixApiUrl ''http://mail.example.com:8080/jmap/?next=http://x/'')
       = fixApiUrl ''http://mail.example.com:8080/jmap/?next=http://x/''"
  using C7_repair_idempotence
          [of "''https://mail.example.com/jmap/''" "''mail.example.com''"
              "''/jmap/?next=http://x/''"]
  by (simp add: fixApiUrl_def needsRepair_def rewriteApiUrl_def truthy_def)

text \<open>
  C7 as stated fails on a URL with a second \<^verbatim>\<open>http://\<close> and a second \<^verbatim>\<open>:8080\<close>: each
  application rewrites the first occurrence only, so the second application changes the
  string again. It also fails on a URL whose scheme is \<^verbatim>\<open>https\<close> and whose host has no
  port, when \<^verbatim>\<open>http://\<close> and \<^verbatim>\<open>:8080\<close> occur later in it: the repair looks for the two
  substrings anywhere and changes that URL.
\<close>

theorem C7_not_idempotent_counterexample:
  "fixApiUrl ''http://a:8080/?r=http://b:8080'' = ''https://a/?r=http://b:8080''
   \<and> fixApiUrl (fixApiUrl ''http://a:8080/?r=http://b:8080'') = ''https://a/?r=https://b''
   \<and> fixApiUrl (fixApiUrl ''http://a:8080/?r=http://b:8080'')
       \<noteq> fixApiUrl ''http://a:8080/?r=http://b:8080''
   \<and> fixApiUrl ''https://a/?r=http://b:8080'' = ''https://a/?r=https://b''
   \<and> fixApiUrl ''https://a/?r=http://b:8080'' \<noteq> ''https://a/?r=http://b:8080''"
  by (simp add: fixApiUrl_def needsRepair_def rewriteApiUrl_def truthy_def)

section \<open>Start-up\<close>

lemma set_update_subset: "set (AList.update k v al) \<subseteq> insert (k, v) (set al)"
  by (induction al) auto


lemma initAccount_classified:
  assumes "initAccount P u cfg (m, f) = Inr (m', f')"
  shows "\<exists>info. m' = AList.update (name cfg) info m \<and> info_name info = name cfg
               \<and> classified (prototypeMembers P) info"
  using assms
  by (auto simp: initAccount_def classified_def Let_def
      split: prod.splits sum.splits if_splits option.splits)

text \<open>
  The invariant of the loop: every entry of the account map is \<^const>\<open>classified\<close>,
  whether the loop ends or throws.
\<close>

lemma initAccounts_classified:
  assumes "\<forall>(n, i) \<in> set m. classified (prototypeMembers P) i"
    and "(n, info) \<in> set (accountMapOf (initAccounts P u cfgs (m, f)))"
  shows "classified (prototypeMembers P) info"
  using assms
proof (induction cfgs arbitrary: m f)
  case Nil
  then show ?case by (auto simp: accountMapOf_def)
next
  case (Cons cfg cfgs)
  show ?case
  proof (cases "initAccount P u cfg (m, f)")
    case (Inl e)
    with Cons.prems show ?thesis by (auto simp: accountMapOf_def)
  next
    case (Inr st')
    obtain m' f' where st': "st' = (m', f')" by (cases st')
    from Inr st' obtain i where m': "m' = AList.update (name cfg) i m"
      and ci: "classified (prototypeMembers P) i"
      using initAccount_classified by blast
    have inv: "\<forall>(n, i) \<in> set m'. classified (prototypeMembers P) i"
      using Cons.prems(1) ci set_update_subset [of "name cfg" i m] unfolding m' by auto
    from Cons.prems(2) Inr st'
    have "(n, info) \<in> set (accountMapOf (initAccounts P u cfgs (m', f')))" by simp
    from Cons.IH [OF inv this] show ?thesis .
  qed
qed

lemma initAccounts_append:
  "initAccounts P u pre st = Inr st' \<Longrightarrow>
   initAccounts P u (pre @ rest) st = initAccounts P u rest st'"
  by (induction pre arbitrary: st) (auto split: sum.splits)

lemma initAccount_no_mail:
  assumes "j = fst (createJAMClient P
                 \<lparr>cfg_sessionUrl = u, cfg_bearerToken = bearerToken cfg,
                  cfg_accountId = accountId cfg\<rparr> f)"
    and "truthy_opt (accountId cfg) \<or> (\<exists>aid. getPrimaryAccount j = Inr aid)"
    and "session j = Inr sess"
    and "''urn:ietf:params:jmap:mail'' \<notin> set (capabilities sess)"
  shows \<open>initAccount P u cfg (m, f) =
           Inl (Error (''account "'' @ name cfg @ ''" does not support jmap mail capabilities''))\<close>
  using assms
  by (auto simp: initAccount_def Let_def split: prod.splits)

text \<open>The start-up of the concrete deployment with its two accounts.\<close>

lemma fixture_run:
  "initAccounts fixturePlatform ''https://mail.example.com/.well-known/jmap'' fixtureAccounts
     ([], noFetch)
   = Inr (fixtureRegistry,
          patchedFetch ''mail.example.com'' (Some ''bob'') (Some ''pw2'')
            (patchedFetch ''mail.example.com'' (Some ''alice'') (Some ''pw1'') noFetch))"
  by (simp add: fixtureAccounts_def fixtureRegistry_def initAccount_def createJAMClient_def
      fixturePlatform_def fixtureClient_def split_limit_def element_def tmpl_def
      truthy_opt_def property_def readOnlyOf_def truthy_flag_def Let_def)




text \<open>
  C4. The loop opens the session of an account after the accounts before it are in the
  account map, and after the account id is known. When the session that it opens for an
  account lacks \<^verbatim>\<open>urn:ietf:params:jmap:mail\<close>, the loop throws the error that names the
  account, with the account map as the accounts before it left it: nothing is added for
  this account, and \<^verbatim>\<open>createServer\<close> fails with that error. In every run, an entry
  of the account map has a client whose session has the mail capability.
\<close>

theorem C4_mail_capability_required:
  assumes "initAccounts P u pre ([], f0) = Inr (m, f)"
    and "j = fst (createJAMClient P
                 \<lparr>cfg_sessionUrl = u, cfg_bearerToken = bearerToken cfg,
                  cfg_accountId = accountId cfg\<rparr> f)"
    and "truthy_opt (accountId cfg) \<or> (\<exists>aid. getPrimaryAccount j = Inr aid)"
    and "session j = Inr sess"
    and "''urn:ietf:params:jmap:mail'' \<notin> set (capabilities sess)"
  shows \<open>initAccounts P u (pre @ cfg # post) ([], f0) =
           Inl (Error (''account "'' @ name cfg @ ''" does not support jmap mail capabilities''), m)
         \<and> (getJMAPConfig P envUrl envTokens envToken = Inr (u, pre @ cfg # post) \<longrightarrow>
            createServer P envUrl envTokens envToken f0 =
              Inl (Error (''account "'' @ name cfg
                          @ ''" does not support jmap mail capabilities'')))
         \<and> ((n, info) \<in> set (accountMapOf (initAccounts P u' cfgs ([], f0'))) \<longrightarrow>
            (\<exists>sess'. session (jam info) = Inr sess'
                     \<and> ''urn:ietf:params:jmap:mail'' \<in> set (capabilities sess')))\<close>
proof -
  have run: \<open>initAccounts P u (pre @ cfg # post) ([], f0) =
           Inl (Error (''account "'' @ name cfg @ ''" does not support jmap mail capabilities''), m)\<close>
    using initAccounts_append [OF assms(1), of "cfg # post"]
      initAccount_no_mail [OF assms(2-5), of m]
    by simp
  have reg: "\<exists>sess'. session (jam info) = Inr sess'
                     \<and> ''urn:ietf:params:jmap:mail'' \<in> set (capabilities sess')"
    if "(n, info) \<in> set (accountMapOf (initAccounts P u' cfgs ([], f0')))"
  proof -
    have "classified (prototypeMembers P) info"
      using initAccounts_classified [of "[]" P n info u' cfgs f0'] that by simp
    then show ?thesis
      unfolding classified_def by blast
  qed
  from run reg show ?thesis
    by (simp add: createServer_def)
qed

theorem C4_mail_capability_required_witness:
  \<open>createServer fixturePlatform (Some ''https://mail.example.com/.well-known/jmap'')
      (Some (''alice:pw1'' @ [CHR 0x0A] @ ''bob:pw2'' @ [CHR 0x0A] @ ''carol:pw3'')) None noFetch
    = Inl (Error ''account "carol" does not support jmap mail capabilities'')
   \<and> initAccounts fixturePlatform ''https://mail.example.com/.well-known/jmap''
        (fixtureAccounts @ [\<lparr>name = ''carol'', bearerToken = ''carol:pw3'', accountId = None\<rparr>])
        ([], noFetch)
     = Inl (Error ''account "carol" does not support jmap mail capabilities'', fixtureRegistry)
   \<and> (\<exists>sess'. session (jam (snd (hd fixtureRegistry))) = Inr sess'
               \<and> ''urn:ietf:params:jmap:mail'' \<in> set (capabilities sess'))\<close>
proof -
  let ?u = "''https://mail.example.com/.well-known/jmap''"
  let ?carol = "\<lparr>name = ''carol'', bearerToken = ''carol:pw3'', accountId = None\<rparr>"
  let ?f = "patchedFetch ''mail.example.com'' (Some ''bob'') (Some ''pw2'')
              (patchedFetch ''mail.example.com'' (Some ''alice'') (Some ''pw1'') noFetch)"
  let ?j = "fst (createJAMClient fixturePlatform
                 \<lparr>cfg_sessionUrl = ?u, cfg_bearerToken = bearerToken ?carol,
                  cfg_accountId = accountId ?carol\<rparr> ?f)"
  have j: "?j = fixtureClient [''urn:ietf:params:jmap:core''] False"
    by (simp add: createJAMClient_def fixturePlatform_def split_limit_def element_def tmpl_def
        Let_def)
  have p: "truthy_opt (accountId ?carol) \<or> (\<exists>aid. getPrimaryAccount ?j = Inr aid)"
    unfolding j by (simp add: fixtureClient_def)
  have s: "session ?j = Inr \<lparr>capabilities = [''urn:ietf:params:jmap:core''],
                             accounts = [(''A1'', \<lparr>isReadOnly = False\<rparr>)]\<rparr>"
    unfolding j by (simp add: fixtureClient_def)
  have c: "getJMAPConfig fixturePlatform (Some ?u)
             (Some (''alice:pw1'' @ [CHR 0x0A] @ ''bob:pw2'' @ [CHR 0x0A] @ ''carol:pw3'')) None
           = Inr (?u, fixtureAccounts @ ?carol # [])"
    by (simp add: getJMAPConfig_def parseAccounts_def parseToken_def trim_def is_ws_def
        indexOf_def substring0_def fixtureAccounts_def truthy_opt_def truthy_def
        fixturePlatform_def)
  have r: "(''alice'', snd (hd fixtureRegistry))
             \<in> set (accountMapOf (initAccounts fixturePlatform ?u fixtureAccounts ([], noFetch)))"
    by (simp add: fixture_run accountMapOf_def fixtureRegistry_def)
  from C4_mail_capability_required [OF fixture_run refl p s, of "[]" "Some ?u"
      "Some (''alice:pw1'' @ [CHR 0x0A] @ ''bob:pw2'' @ [CHR 0x0A] @ ''carol:pw3'')" None
      "''alice''" "snd (hd fixtureRegistry)" ?u fixtureAccounts noFetch] c r
  show ?thesis
    by simp
qed

section \<open>The tool handlers\<close>

lemma join_contains: "n \<in> set xs \<Longrightarrow> \<exists>a b. join sep xs = a @ n @ b"
proof (induction sep xs rule: join.induct)
  case (1 sep)
  then show ?case by simp
next
  case (2 sep x)
  then have "join sep [x] = [] @ n @ []" by simp
  then show ?case by blast
next
  case (3 sep x y ys)
  show ?case
  proof (cases "n = x")
    case True
    then have "join sep (x # y # ys) = [] @ n @ (sep @ join sep (y # ys))" by simp
    then show ?thesis by blast
  next
    case False
    with 3 obtain a b where "join sep (y # ys) = a @ n @ b" by auto
    then have "join sep (x # y # ys) = (x @ sep @ a) @ n @ b" by simp
    then show ?thesis by blast
  qed
qed

lemma str_includes_join: "n \<in> set xs \<Longrightarrow> str_includes (p @ join sep xs) n"
proof -
  assume "n \<in> set xs"
  then obtain a b where "join sep xs = a @ n @ b"
    using join_contains by blast
  then have "p @ join sep xs = (p @ a) @ n @ b" by simp
  then show ?thesis unfolding str_includes_iff by blast
qed

lemma getAccount_unknown:
  assumes "req \<noteq> []" and "map_of accountMap req = None"
  shows \<open>getAccount accountMap (Some req) =
           Inl (Error (''account "'' @ req @ ''" not found. available accounts: ''
                       @ join '', '' (map fst accountMap)))\<close>
  using assms by (simp add: getAccount_def truthy_opt_def truthy_def)

text \<open>
  The lookup tests the requested name for truthiness: on a registry that is not empty, a
  call that asks for the empty string gets the first account, as a call that names none.
\<close>

lemma getAccount_empty_name:
  "accountMap \<noteq> [] \<Longrightarrow> getAccount accountMap (Some []) = Inr (snd (hd accountMap))"
  by (cases accountMap) (auto simp: getAccount_def truthy_opt_def truthy_def)

lemma tryCatch_getAccount_error:
  "getAccount accountMap r = Inl e \<Longrightarrow>
   tryCatch (andThen (lift (getAccount accountMap r)) k) h st = (h e, st)"
  by (simp add: tryCatch_def andThen_def lift_def)

text \<open>
  C8, as the code has it. When a tool call asks for a non-empty account name that is not
  in the registry, the lookup raises an error whose message contains every name of the
  registry, and a handler, which is a \<^verbatim>\<open>try\<close> around a body that begins with the
  lookup, returns the text of its \<^verbatim>\<open>catch\<close> branch for that error and leaves the mail
  server as it is. This is stated for every body and prefix, and for \<^verbatim>\<open>mark_emails\<close>
  and \<^verbatim>\<open>send_email\<close>.
\<close>

theorem C8_unknown_account:
  fixes accountMap :: "'st AccountMap"
  assumes "req \<noteq> []" and "map_of accountMap req = None"
  defines \<open>msg \<equiv> ''account "'' @ req @ ''" not found. available accounts: ''
                   @ join '', '' (map fst accountMap)\<close>
  shows "getAccount accountMap (Some req) = Inl (Error msg)
       \<and> (\<forall>n \<in> set (map fst accountMap). str_includes msg n)
       \<and> tryCatch (andThen (lift (getAccount accountMap (Some req))) k)
            (\<lambda>error. ErrorText (pre @ formatError error)) st
          = (ErrorText (pre @ formatError (Error msg)), st)
       \<and> (account margs = Some req \<longrightarrow>
            mark_emails formatError accountMap margs st
              = (ErrorText (''Error marking emails: '' @ formatError (Error msg)), st))
       \<and> (account sargs = Some req \<longrightarrow>
            send_email formatError accountMap sargs st
              = (ErrorText (''Error sending email: '' @ formatError (Error msg)), st))"
proof -
  have g: "getAccount accountMap (Some req) = Inl (Error msg)"
    unfolding msg_def using assms(1,2) by (rule getAccount_unknown)
  have e: "\<forall>n \<in> set (map fst accountMap). str_includes msg n"
    unfolding msg_def
    using str_includes_join [of _ "map fst accountMap"
        "''account \"'' @ req @ ''\" not found. available accounts: ''" "'', ''"]
    by simp
  have h: "tryCatch (andThen (lift (getAccount accountMap (Some req))) k)
            (\<lambda>error. ErrorText (pre @ formatError error)) st
          = (ErrorText (pre @ formatError (Error msg)), st)"
    by (rule tryCatch_getAccount_error [OF g])
  have m: "mark_emails formatError accountMap margs st
              = (ErrorText (''Error marking emails: '' @ formatError (Error msg)), st)"
    if "account margs = Some req"
    unfolding mark_emails_def mark_emails_body_def that
    by (rule tryCatch_getAccount_error [OF g])
  have s: "send_email formatError accountMap sargs st
              = (ErrorText (''Error sending email: '' @ formatError (Error msg)), st)"
    if "account sargs = Some req"
    unfolding send_email_def send_email_body_def that
    by (rule tryCatch_getAccount_error [OF g])
  from g e h m s show ?thesis by blast
qed

theorem C8_unknown_account_witness:
  \<open>mark_emails fixtureFormat fixtureRegistry
      \<lparr>account = Some ''carol'', ids = [''e1''], seen = None, flagged = None\<rparr> []
    = (ErrorText
         ''Error marking emails: account "carol" not found. available accounts: alice, bob'',
       [])
   \<and> str_includes ''account "carol" not found. available accounts: alice, bob'' ''alice''
   \<and> str_includes ''account "carol" not found. available accounts: alice, bob'' ''bob''\<close>
  using C8_unknown_account [where req = "''carol''" and accountMap = fixtureRegistry
      and margs = "\<lparr>account = Some ''carol'', ids = [''e1''], seen = None, flagged = None\<rparr>"
      and formatError = fixtureFormat and st = "[]"]
  by (simp add: fixtureRegistry_def fixtureFormat_def)

text \<open>
  C8 as stated fails for the empty string: it is not a name of the registry of
  \<^verbatim>\<open>alice\<close> and \<^verbatim>\<open>bob\<close>, and a call that asks for it gets the first account, since
  the lookup tests the requested name for truthiness.
\<close>

theorem C8_empty_name_counterexample:
  "fixtureRegistry \<noteq> []
   \<and> map_of fixtureRegistry [] = None
   \<and> getAccount fixtureRegistry (Some []) = Inr (snd (hd fixtureRegistry))
   \<and> info_name (snd (hd fixtureRegistry)) = ''alice''"
  by (simp add: fixtureRegistry_def getAccount_def truthy_opt_def truthy_def)

text \<open>
  The three outcomes of the body of \<^verbatim>\<open>send_email\<close> when both bodies are falsy: the
  error of the lookup, the error of the submission check, the error of the body check.
  The first two do not depend on the bodies.
\<close>

lemma send_email_no_body:
  assumes "\<not> truthy_opt (textBody args)" and "\<not> truthy_opt (htmlBody args)"
  shows "getAccount accountMap (account args) = Inl e \<Longrightarrow>
         send_email_body accountMap args st = (Inl e, st)"
    and \<open>getAccount accountMap (account args) = Inr acct \<Longrightarrow> \<not> hasSubmission acct \<Longrightarrow>
         send_email_body accountMap args st
           = (Inl (Error (''account "'' @ info_name acct
                          @ ''" does not support email submission'')), st)\<close>
    and "getAccount accountMap (account args) = Inr acct \<Longrightarrow> hasSubmission acct \<Longrightarrow>
         send_email_body accountMap args st
           = (Inl (Error ''Either textBody or htmlBody must be provided''), st)"
  using assms
  by (auto simp: send_email_body_def andThen_def lift_def throw_def)

lemma reply_to_email_no_body:
  assumes "\<not> truthy_opt (textBody args)" and "\<not> truthy_opt (htmlBody args)"
  shows "getAccount accountMap (account args) = Inl e \<Longrightarrow>
         reply_to_email_body accountMap args st = (Inl e, st)"
    and \<open>getAccount accountMap (account args) = Inr acct \<Longrightarrow> \<not> hasSubmission acct \<Longrightarrow>
         reply_to_email_body accountMap args st
           = (Inl (Error (''account "'' @ info_name acct
                          @ ''" does not support email submission'')), st)\<close>
    and "getAccount accountMap (account args) = Inr acct \<Longrightarrow> hasSubmission acct \<Longrightarrow>
         reply_to_email_body accountMap args st
           = (Inl (Error ''Either textBody or htmlBody must be provided''), st)"
  using assms
  by (auto simp: reply_to_email_body_def andThen_def lift_def throw_def)

lemma create_draft_no_body:
  assumes "\<not> truthy_opt (textBody args)" and "\<not> truthy_opt (htmlBody args)"
  shows "getAccount accountMap (account args) = Inl e \<Longrightarrow>
         create_draft_body accountMap args st = (Inl e, st)"
    and \<open>getAccount accountMap (account args) = Inr acct \<Longrightarrow>
         info_isReadOnly acct = Some True \<Longrightarrow>
         create_draft_body accountMap args st
           = (Inl (Error (''account "'' @ info_name acct @ ''" is read-only'')), st)\<close>
    and "getAccount accountMap (account args) = Inr acct \<Longrightarrow>
         info_isReadOnly acct \<noteq> Some True \<Longrightarrow>
         create_draft_body accountMap args st
           = (Inl (Error ''either textBody or htmlBody must be provided''), st)"
  using assms
  by (auto simp: create_draft_body_def andThen_def lift_def throw_def truthy_flag_def)

text \<open>
  C9, as the code has it. A call of \<^verbatim>\<open>send_email\<close>, \<^verbatim>\<open>reply_to_email\<close> or
  \<^verbatim>\<open>create_draft\<close> with both \<open>textBody\<close> and \<open>htmlBody\<close> absent returns an error text and
  leaves the state of the mail server unchanged, whatever the protocol client would do:
  no method of the client is called. The error is the error of the account lookup when
  the lookup fails. When the account is found, it is the error of the check of the tool
  when that fails: \<^verbatim>\<open>account "<name>" does not support email submission\<close> for
  \<^verbatim>\<open>send_email\<close> and \<^verbatim>\<open>reply_to_email\<close> on an account without submission,
  \<^verbatim>\<open>account "<name>" is read-only\<close> for \<^verbatim>\<open>create_draft\<close> on a read-only account.
  Otherwise it is \<^verbatim>\<open>Either textBody or htmlBody must be provided\<close> for \<^verbatim>\<open>send_email\<close>
  and \<^verbatim>\<open>reply_to_email\<close>, and \<^verbatim>\<open>either textBody or htmlBody must be provided\<close> for
  \<^verbatim>\<open>create_draft\<close>. The hypothesis of the theorem also admits an empty body.
\<close>

theorem C9_body_required:
  \<open>(\<not> truthy_opt (textBody sargs) \<and> \<not> truthy_opt (htmlBody sargs) \<longrightarrow>
      (\<exists>e. send_email formatError accountMap sargs st
             = (ErrorText (''Error sending email: '' @ formatError e), st))
      \<and> (\<forall>e. getAccount accountMap (account sargs) = Inl e \<longrightarrow>
            send_email formatError accountMap sargs st
              = (ErrorText (''Error sending email: '' @ formatError e), st))
      \<and> (\<forall>acct. getAccount accountMap (account sargs) = Inr acct \<and> \<not> hasSubmission acct \<longrightarrow>
            send_email formatError accountMap sargs st
              = (ErrorText (''Error sending email: ''
                   @ formatError (Error (''account "'' @ info_name acct
                                         @ ''" does not support email submission''))), st))
      \<and> (\<forall>acct. getAccount accountMap (account sargs) = Inr acct \<and> hasSubmission acct \<longrightarrow>
            send_email formatError accountMap sargs st
              = (ErrorText (''Error sending email: ''
                   @ formatError (Error ''Either textBody or htmlBody must be provided'')), st)))
   \<and> (\<not> truthy_opt (textBody rargs) \<and> \<not> truthy_opt (htmlBody rargs) \<longrightarrow>
      (\<exists>e. reply_to_email formatError accountMap rargs st
             = (ErrorText (''Error replying to email: '' @ formatError e), st))
      \<and> (\<forall>e. getAccount accountMap (account rargs) = Inl e \<longrightarrow>
            reply_to_email formatError accountMap rargs st
              = (ErrorText (''Error replying to email: '' @ formatError e), st))
      \<and> (\<forall>acct. getAccount accountMap (account rargs) = Inr acct \<and> \<not> hasSubmission acct \<longrightarrow>
            reply_to_email formatError accountMap rargs st
              = (ErrorText (''Error replying to email: ''
                   @ formatError (Error (''account "'' @ info_name acct
                                         @ ''" does not support email submission''))), st))
      \<and> (\<forall>acct. getAccount accountMap (account rargs) = Inr acct \<and> hasSubmission acct \<longrightarrow>
            reply_to_email formatError accountMap rargs st
              = (ErrorText (''Error replying to email: ''
                   @ formatError (Error ''Either textBody or htmlBody must be provided'')), st)))
   \<and> (\<not> truthy_opt (textBody dargs) \<and> \<not> truthy_opt (htmlBody dargs) \<longrightarrow>
      (\<exists>e. create_draft formatError accountMap dargs st
             = (ErrorText (''error creating draft: '' @ formatError e), st))
      \<and> (\<forall>e. getAccount accountMap (account dargs) = Inl e \<longrightarrow>
            create_draft formatError accountMap dargs st
              = (ErrorText (''error creating draft: '' @ formatError e), st))
      \<and> (\<forall>acct. getAccount accountMap (account dargs) = Inr acct
                 \<and> info_isReadOnly acct = Some True \<longrightarrow>
            create_draft formatError accountMap dargs st
              = (ErrorText (''error creating draft: ''
                   @ formatError (Error (''account "'' @ info_name acct
                                         @ ''" is read-only''))), st))
      \<and> (\<forall>acct. getAccount accountMap (account dargs) = Inr acct
                 \<and> info_isReadOnly acct \<noteq> Some True \<longrightarrow>
            create_draft formatError accountMap dargs st
              = (ErrorText (''error creating draft: ''
                   @ formatError (Error ''either textBody or htmlBody must be provided'')), st)))\<close>
proof (intro conjI impI)
  assume "\<not> truthy_opt (textBody sargs) \<and> \<not> truthy_opt (htmlBody sargs)"
  then have a: "\<not> truthy_opt (textBody sargs)" "\<not> truthy_opt (htmlBody sargs)"
    by simp_all
  note b = send_email_no_body [OF a, of accountMap _ st]
  show l: "\<forall>e. getAccount accountMap (account sargs) = Inl e \<longrightarrow>
            send_email formatError accountMap sargs st
              = (ErrorText (''Error sending email: '' @ formatError e), st)"
    using b(1) by (auto simp: send_email_def tryCatch_def)
  show n: \<open>\<forall>acct. getAccount accountMap (account sargs) = Inr acct \<and> \<not> hasSubmission acct \<longrightarrow>
            send_email formatError accountMap sargs st
              = (ErrorText (''Error sending email: ''
                   @ formatError (Error (''account "'' @ info_name acct
                                         @ ''" does not support email submission''))), st)\<close>
    using b(2) by (auto simp: send_email_def tryCatch_def)
  show y: "\<forall>acct. getAccount accountMap (account sargs) = Inr acct \<and> hasSubmission acct \<longrightarrow>
            send_email formatError accountMap sargs st
              = (ErrorText (''Error sending email: ''
                   @ formatError (Error ''Either textBody or htmlBody must be provided'')), st)"
    using b(3) by (auto simp: send_email_def tryCatch_def)
  show "\<exists>e. send_email formatError accountMap sargs st
             = (ErrorText (''Error sending email: '' @ formatError e), st)"
  proof (cases "getAccount accountMap (account sargs)")
    case (Inl e)
    with l show ?thesis by blast
  next
    case (Inr acct)
    with n y show ?thesis by (cases "hasSubmission acct") blast+
  qed
next
  assume "\<not> truthy_opt (textBody rargs) \<and> \<not> truthy_opt (htmlBody rargs)"
  then have a: "\<not> truthy_opt (textBody rargs)" "\<not> truthy_opt (htmlBody rargs)"
    by simp_all
  note b = reply_to_email_no_body [OF a, of accountMap _ st]
  show l: "\<forall>e. getAccount accountMap (account rargs) = Inl e \<longrightarrow>
            reply_to_email formatError accountMap rargs st
              = (ErrorText (''Error replying to email: '' @ formatError e), st)"
    using b(1) by (auto simp: reply_to_email_def tryCatch_def)
  show n: \<open>\<forall>acct. getAccount accountMap (account rargs) = Inr acct \<and> \<not> hasSubmission acct \<longrightarrow>
            reply_to_email formatError accountMap rargs st
              = (ErrorText (''Error replying to email: ''
                   @ formatError (Error (''account "'' @ info_name acct
                                         @ ''" does not support email submission''))), st)\<close>
    using b(2) by (auto simp: reply_to_email_def tryCatch_def)
  show y: "\<forall>acct. getAccount accountMap (account rargs) = Inr acct \<and> hasSubmission acct \<longrightarrow>
            reply_to_email formatError accountMap rargs st
              = (ErrorText (''Error replying to email: ''
                   @ formatError (Error ''Either textBody or htmlBody must be provided'')), st)"
    using b(3) by (auto simp: reply_to_email_def tryCatch_def)
  show "\<exists>e. reply_to_email formatError accountMap rargs st
             = (ErrorText (''Error replying to email: '' @ formatError e), st)"
  proof (cases "getAccount accountMap (account rargs)")
    case (Inl e)
    with l show ?thesis by blast
  next
    case (Inr acct)
    with n y show ?thesis by (cases "hasSubmission acct") blast+
  qed
next
  assume "\<not> truthy_opt (textBody dargs) \<and> \<not> truthy_opt (htmlBody dargs)"
  then have a: "\<not> truthy_opt (textBody dargs)" "\<not> truthy_opt (htmlBody dargs)"
    by simp_all
  note b = create_draft_no_body [OF a, of accountMap _ st]
  show l: "\<forall>e. getAccount accountMap (account dargs) = Inl e \<longrightarrow>
            create_draft formatError accountMap dargs st
              = (ErrorText (''error creating draft: '' @ formatError e), st)"
    using b(1) by (auto simp: create_draft_def tryCatch_def)
  show n: \<open>\<forall>acct. getAccount accountMap (account dargs) = Inr acct
                 \<and> info_isReadOnly acct = Some True \<longrightarrow>
            create_draft formatError accountMap dargs st
              = (ErrorText (''error creating draft: ''
                   @ formatError (Error (''account "'' @ info_name acct
                                         @ ''" is read-only''))), st)\<close>
    using b(2) by (auto simp: create_draft_def tryCatch_def)
  show y: "\<forall>acct. getAccount accountMap (account dargs) = Inr acct
                 \<and> info_isReadOnly acct \<noteq> Some True \<longrightarrow>
            create_draft formatError accountMap dargs st
              = (ErrorText (''error creating draft: ''
                   @ formatError (Error ''either textBody or htmlBody must be provided'')), st)"
    using b(3) by (auto simp: create_draft_def tryCatch_def)
  show "\<exists>e. create_draft formatError accountMap dargs st
             = (ErrorText (''error creating draft: '' @ formatError e), st)"
  proof (cases "getAccount accountMap (account dargs)")
    case (Inl e)
    with l show ?thesis by blast
  next
    case (Inr acct)
    with n y show ?thesis by (cases "info_isReadOnly acct = Some True") blast+
  qed
qed

theorem C9_body_required_witness:
  \<open>send_email fixtureFormat fixtureRegistry fixtureCompose []
     = (ErrorText ''Error sending email: Either textBody or htmlBody must be provided'', [])
   \<and> send_email fixtureFormat fixtureRegistry (fixtureCompose\<lparr>account := Some ''bob''\<rparr>) []
     = (ErrorText ''Error sending email: account "bob" does not support email submission'', [])
   \<and> reply_to_email fixtureFormat fixtureRegistry fixtureReply []
     = (ErrorText ''Error replying to email: Either textBody or htmlBody must be provided'', [])
   \<and> create_draft fixtureFormat fixtureRegistry fixtureCompose []
     = (ErrorText ''error creating draft: either textBody or htmlBody must be provided'', [])
   \<and> create_draft fixtureFormat fixtureRegistry (fixtureCompose\<lparr>account := Some ''carol''\<rparr>) []
     = (ErrorText
          ''error creating draft: account "carol" not found. available accounts: alice, bob'',
        [])\<close>
  using C9_body_required [where sargs = fixtureCompose and rargs = fixtureReply
      and dargs = fixtureCompose and accountMap = fixtureRegistry
      and formatError = fixtureFormat and st = "[]"]
    C9_body_required [where sargs = "fixtureCompose\<lparr>account := Some ''bob''\<rparr>"
      and rargs = fixtureReply
      and dargs = "fixtureCompose\<lparr>account := Some ''carol''\<rparr>"
      and accountMap = fixtureRegistry
      and formatError = fixtureFormat and st = "[]"]
  by (simp add: fixtureCompose_def fixtureReply_def fixtureRegistry_def fixtureFormat_def
      getAccount_def truthy_opt_def truthy_def)

text \<open>
  C9 as stated fails in two ways. For \<^verbatim>\<open>create_draft\<close> on the writable account
  \<^verbatim>\<open>alice\<close>, with both bodies absent, the error that the body throws is
  \<^verbatim>\<open>either textBody or htmlBody must be provided\<close>, which is not the message of the
  claim. For \<^verbatim>\<open>send_email\<close> on the account \<^verbatim>\<open>bob\<close>, which has no submission, with both
  bodies absent, the error is that of the submission check, which comes before the check
  of the bodies.
\<close>

theorem C9_create_draft_message_counterexample:
  \<open>textBody fixtureCompose = None \<and> htmlBody fixtureCompose = None
   \<and> create_draft_body fixtureRegistry fixtureCompose []
       = (Inl (Error ''either textBody or htmlBody must be provided''), [])
   \<and> Error ''either textBody or htmlBody must be provided''
       \<noteq> Error ''Either textBody or htmlBody must be provided''
   \<and> send_email_body fixtureRegistry (fixtureCompose\<lparr>account := Some ''bob''\<rparr>) []
       = (Inl (Error ''account "bob" does not support email submission''), [])
   \<and> Error ''account "bob" does not support email submission''
       \<noteq> Error ''Either textBody or htmlBody must be provided''\<close>
  by (simp add: create_draft_body_def send_email_body_def fixtureCompose_def
      fixtureRegistry_def getAccount_def truthy_opt_def truthy_def truthy_flag_def
      andThen_def lift_def throw_def)

lemma map_of_fold_update:
  "map_of (fold (\<lambda>k al. AList.update k v al) ks al) =
     (\<lambda>k. if k \<in> set ks then Some v else map_of al k)"
  by (induction ks arbitrary: al) (auto simp: update_conv fun_eq_iff)

lemma markKeywords_none: "markKeywords None None = []"
  by (simp add: markKeywords_def)

text \<open>
  C10. A \<^verbatim>\<open>mark_emails\<close> call on an account that is found and not read-only, with
  \<open>seen\<close> and \<open>flagged\<close> both omitted, is not rejected: the handler calls
  \<^verbatim>\<open>Email.set\<close> with the update object, and returns what that call gives. The update
  object maps every listed id to a patch with an empty \<^verbatim>\<open>keywords\<close> object, and
  nothing else. An account is not read-only when its stored \<open>isReadOnly\<close> is not true.
\<close>

theorem C10_mark_without_flags:
  assumes "getAccount accountMap (account args) = Inr acct"
    and "info_isReadOnly acct \<noteq> Some True"
    and "seen args = None" and "flagged args = None"
  shows "mark_emails formatError accountMap args st =
           (case Email_set_update (api (jam acct)) (info_accountId acct) (markUpdates args) st of
              (Inl e, st') \<Rightarrow> (ErrorText (''Error marking emails: '' @ formatError e), st')
            | (Inr result, st') \<Rightarrow> (MarkedJson (updated result) (notUpdated result), st'))
         \<and> map_of (markUpdates args) =
             (\<lambda>id. if id \<in> set (ids args) then Some (KeywordsPatch []) else None)"
proof -
  have "map_of (markUpdates args) =
             (\<lambda>id. if id \<in> set (ids args) then Some (KeywordsPatch []) else None)"
    using assms(3,4)
    by (simp add: markUpdates_def markKeywords_none map_of_fold_update fun_eq_iff)
  moreover have "mark_emails formatError accountMap args st =
           (case Email_set_update (api (jam acct)) (info_accountId acct) (markUpdates args) st of
              (Inl e, st') \<Rightarrow> (ErrorText (''Error marking emails: '' @ formatError e), st')
            | (Inr result, st') \<Rightarrow> (MarkedJson (updated result) (notUpdated result), st'))"
    using assms(1,2)
    by (simp add: mark_emails_def mark_emails_body_def tryCatch_def andThen_def lift_def
        throw_def ret_def truthy_flag_def Let_def split: prod.splits sum.splits)
  ultimately show ?thesis by simp
qed

theorem C10_mark_without_flags_witness:
  "mark_emails fixtureFormat fixtureRegistry
      \<lparr>account = Some ''alice'', ids = [''e1'', ''e2''], seen = None, flagged = None\<rparr> []
   = (MarkedJson (Some [''e1'', ''e2'']) None,
      [[(''e1'', KeywordsPatch []), (''e2'', KeywordsPatch [])]])"
  using C10_mark_without_flags [where accountMap = fixtureRegistry
      and formatError = fixtureFormat and st = "[]"
      and args = "\<lparr>account = Some ''alice'', ids = [''e1'', ''e2''], seen = None, flagged = None\<rparr>"
      and acct = "snd (hd fixtureRegistry)"]
  by (simp add: fixtureRegistry_def getAccount_def truthy_opt_def truthy_def fixtureClient_def
      fixtureApi_def markUpdates_def markKeywords_def)

end
